theory Spec2Isabelle
  imports Complex_Main
begin

section \<open>Continuous-time HIV model with economic evaluation\<close>

text \<open>
  A shallow embedding of \<^verbatim>\<open>ct_hiv_model_econ_eval/model_classes.py\<close> and of the
  enumeration of \<^verbatim>\<open>ct_hiv_model_econ_eval/input_data.py\<close>.

  Python floats are idealised as \<^typ>\<open>real\<close>, Python integers are \<^typ>\<open>int\<close>, list
  indices and enumeration values are \<^typ>\<open>nat\<close>. Objects mutated in place become records
  that are passed in and returned. An exception is the value \<open>Inl e\<close>; a loop that does not
  end is the value \<open>None\<close>.
\<close>

subsection \<open>Health states (input_data.py)\<close>

datatype HealthStates = CD4_200to500 | CD4_200 | AIDS | HIV_DEATH | NATUAL_DEATH

text \<open>The attribute \<^verbatim>\<open>.value\<close> of a member of the enumeration.\<close>

fun HealthStates_value :: "HealthStates \<Rightarrow> nat" where
  "HealthStates_value CD4_200to500 = 0"
| "HealthStates_value CD4_200 = 1"
| "HealthStates_value AIDS = 2"
| "HealthStates_value HIV_DEATH = 3"
| "HealthStates_value NATUAL_DEATH = 4"

text \<open>
  \<open>ValueError\<close>: \<^verbatim>\<open>HealthStates(i)\<close> for an \<open>i\<close> that is no member's value.
  \<open>IndexError\<close>: a list read out of range.
  \<open>LibraryError\<close>: an exception raised inside numpy or deampy.
\<close>

datatype error = ValueError | IndexError | LibraryError

text \<open>The call \<^verbatim>\<open>HealthStates(i)\<close>: lookup of a member by value.\<close>

definition HealthStates_of :: "nat \<Rightarrow> error + HealthStates" where
  "HealthStates_of i =
     (if i = 0 then Inr CD4_200to500
      else if i = 1 then Inr CD4_200
      else if i = 2 then Inr AIDS
      else if i = 3 then Inr HIV_DEATH
      else if i = 4 then Inr NATUAL_DEATH
      else Inl ValueError)"

subsection \<open>Parameters and the external libraries\<close>

text \<open>
  The fields of the parameter object that \<^verbatim>\<open>model_classes.py\<close> reads. The class itself
  (\<^verbatim>\<open>param_classes.py\<close>) is not part of the sources, so a parameter object is any value
  of this record.
\<close>

record Parameters =
  initialHealthState :: HealthStates
  transRateMatrix :: "real list list"
  annualStateCosts :: "real list"
  annualStateUtilities :: "real list"
  annualTreatmentCost :: real
  discountRate :: real

text \<open>
  The functions of numpy and deampy that the model calls. They are not part of the
  sources, so the model takes them as a parameter:
  \<^item> \<open>RandomState seed\<close> is \<^verbatim>\<open>np.random.RandomState(seed=seed)\<close>, a random stream of type \<open>'r\<close>;
  \<^item> \<open>Gillespie m\<close> is \<^verbatim>\<open>Gillespie(transition_rate_matrix=m)\<close>, a sampler of type \<open>'g\<close>;
  \<^item> \<open>get_next_state g i rng\<close> is \<^verbatim>\<open>g.get_next_state(current_state_index=i, rng=rng)\<close>: the pair
    \<open>(dt, new_state_index)\<close>, where \<open>dt = None\<close> is the sentinel of an absorbing state, and
    the random stream after the draw;
  \<^item> \<open>pv_continuous_payment payment discount_rate discount_period\<close> is the function of that
    name of \<^verbatim>\<open>deampy.econ_eval\<close>;
  \<^item> \<open>SummaryStat name data\<close> is \<^verbatim>\<open>stats.SummaryStat(name=name, data=data)\<close>, of type \<open>'s\<close>.
  A result \<open>None\<close> of a library function is an exception raised inside the library.
\<close>

record ('r, 'g, 's) library =
  RandomState :: "int \<Rightarrow> 'r option"
  Gillespie :: "real list list \<Rightarrow> 'g option"
  get_next_state :: "'g \<Rightarrow> nat \<Rightarrow> 'r \<Rightarrow> ((real option \<times> nat) \<times> 'r) option"
  pv_continuous_payment :: "real \<Rightarrow> real \<Rightarrow> real \<times> real \<Rightarrow> real"
  SummaryStat :: "string \<Rightarrow> real list \<Rightarrow> 's option"

subsection \<open>PatientCostUtilityMonitor\<close>

record PatientCostUtilityMonitor =
  tLastRecorded :: real
  cu_params :: Parameters
  totalDiscountedCost :: real
  totalDiscountedUtility :: real

definition PatientCostUtilityMonitor_init :: "Parameters \<Rightarrow> PatientCostUtilityMonitor" where
  "PatientCostUtilityMonitor_init parameters =
     \<lparr>tLastRecorded = 0, cu_params = parameters,
      totalDiscountedCost = 0, totalDiscountedUtility = 0\<rparr>"

text \<open>
  \<^verbatim>\<open>PatientCostUtilityMonitor.update(time, current_state)\<close>. Both list reads come first
  and raise \<open>IndexError\<close> out of range.
\<close>

definition PatientCostUtilityMonitor_update ::
  "('r, 'g, 's) library \<Rightarrow> PatientCostUtilityMonitor \<Rightarrow> real \<Rightarrow> HealthStates
     \<Rightarrow> error + PatientCostUtilityMonitor" where
  "PatientCostUtilityMonitor_update lib m time current_state =
     (let i = HealthStates_value current_state; p = cu_params m in
      if length (annualStateCosts p) \<le> i then Inl IndexError
      else let cost = annualStateCosts p ! i + annualTreatmentCost p in
      if length (annualStateUtilities p) \<le> i then Inl IndexError
      else let utility = annualStateUtilities p ! i;
               discounted_cost =
                 pv_continuous_payment lib cost (discountRate p) (tLastRecorded m, time);
               discounted_utility =
                 pv_continuous_payment lib utility (discountRate p) (tLastRecorded m, time)
           in Inr (m\<lparr>totalDiscountedCost := totalDiscountedCost m + discounted_cost,
                     totalDiscountedUtility := totalDiscountedUtility m + discounted_utility,
                     tLastRecorded := time\<rparr>))"

subsection \<open>PatientStateMonitor\<close>

record PatientStateMonitor =
  currentState :: HealthStates
  survivalTime :: "real option"
  timeToAIDS :: "real option"
  costUtilityMonitor :: PatientCostUtilityMonitor

definition PatientStateMonitor_init :: "Parameters \<Rightarrow> PatientStateMonitor" where
  "PatientStateMonitor_init parameters =
     \<lparr>currentState = initialHealthState parameters,
      survivalTime = None, timeToAIDS = None,
      costUtilityMonitor = PatientCostUtilityMonitor_init parameters\<rparr>"

text \<open>
  \<^verbatim>\<open>PatientStateMonitor.update(time, new_state)\<close>: the two time fields, then the cost and
  utility monitor with the monitor's current state, then the current state.
\<close>

definition PatientStateMonitor_update ::
  "('r, 'g, 's) library \<Rightarrow> PatientStateMonitor \<Rightarrow> real \<Rightarrow> HealthStates
     \<Rightarrow> error + PatientStateMonitor" where
  "PatientStateMonitor_update lib m time new_state =
     (let m1 = (if new_state = HIV_DEATH \<or> new_state = NATUAL_DEATH
                then m\<lparr>survivalTime := Some time\<rparr> else m);
          m2 = (if currentState m1 \<noteq> AIDS \<and> new_state = AIDS
                then m1\<lparr>timeToAIDS := Some time\<rparr> else m1)
      in case PatientCostUtilityMonitor_update lib (costUtilityMonitor m2) time (currentState m2) of
           Inl e \<Rightarrow> Inl e
         | Inr cu \<Rightarrow> Inr (m2\<lparr>costUtilityMonitor := cu, currentState := new_state\<rparr>))"

subsection \<open>Patient\<close>

record Patient =
  pat_id :: int
  pat_params :: Parameters
  stateMonitor :: PatientStateMonitor

definition Patient_init :: "int \<Rightarrow> Parameters \<Rightarrow> Patient" where
  "Patient_init i parameters =
     \<lparr>pat_id = i, pat_params = parameters,
      stateMonitor = PatientStateMonitor_init parameters\<rparr>"

text \<open>
  One pass through the body of the \<^verbatim>\<open>while\<close> loop of \<^verbatim>\<open>Patient.simulate\<close>, from the
  simulation time \<open>t\<close>, the state monitor and the random stream. \<open>Stopped\<close>: the pass set
  \<^verbatim>\<open>if_stop\<close>. \<open>Running\<close>: the loop goes on. \<open>Raised\<close>: an exception left the loop.
  The sums \<open>dt + t\<close> and \<open>t + dt\<close> are exact sums of reals here; the source computes them
  in binary64, where adding a small \<open>dt\<close> can leave \<open>t\<close> as it is.
\<close>

datatype 'r step_result =
  Stopped PatientStateMonitor
| Running real PatientStateMonitor 'r
| Raised error

definition simulate_step ::
  "('r, 'g, 's) library \<Rightarrow> 'g \<Rightarrow> real \<Rightarrow> real \<Rightarrow> PatientStateMonitor \<Rightarrow> 'r \<Rightarrow> 'r step_result" where
  "simulate_step lib gillespie sim_length t m rng =
     (case get_next_state lib gillespie (HealthStates_value (currentState m)) rng of
        None \<Rightarrow> Raised LibraryError
      | Some ((None, new_state_index), rng') \<Rightarrow> Stopped m
      | Some ((Some dt, new_state_index), rng') \<Rightarrow>
          if dt + t > sim_length then
            (case HealthStates_of (HealthStates_value (currentState m)) of
               Inl e \<Rightarrow> Raised e
             | Inr new_state \<Rightarrow>
                 (case PatientStateMonitor_update lib m sim_length new_state of
                    Inl e \<Rightarrow> Raised e
                  | Inr m' \<Rightarrow> Stopped m'))
          else
            (case HealthStates_of new_state_index of
               Inl e \<Rightarrow> Raised e
             | Inr new_state \<Rightarrow>
                 (case PatientStateMonitor_update lib m (t + dt) new_state of
                    Inl e \<Rightarrow> Raised e
                  | Inr m' \<Rightarrow> Running (t + dt) m' rng')))"

text \<open>The \<^verbatim>\<open>while not if_stop\<close> loop. It has no bound on its passes.\<close>

partial_function (option) simulate_loop ::
  "('r, 'g, 's) library \<Rightarrow> 'g \<Rightarrow> real \<Rightarrow> real \<Rightarrow> PatientStateMonitor \<Rightarrow> 'r
     \<Rightarrow> (error + PatientStateMonitor) option" where
  "simulate_loop lib gillespie sim_length t m rng =
     (case simulate_step lib gillespie sim_length t m rng of
        Stopped m' \<Rightarrow> Some (Inr m')
      | Raised e \<Rightarrow> Some (Inl e)
      | Running t' m' rng' \<Rightarrow> simulate_loop lib gillespie sim_length t' m' rng')"

text \<open>
  \<^verbatim>\<open>Patient.simulate(sim_length)\<close>: the random stream seeded with the patient's id, the
  sampler of the rate matrix, then the loop from \<open>t = 0\<close>. The result is the patient
  after the call.
\<close>

definition Patient_simulate ::
  "('r, 'g, 's) library \<Rightarrow> Patient \<Rightarrow> real \<Rightarrow> (error + Patient) option" where
  "Patient_simulate lib p sim_length =
     (case RandomState lib (pat_id p) of
        None \<Rightarrow> Some (Inl LibraryError)
      | Some rng \<Rightarrow>
          (case Gillespie lib (transRateMatrix (pat_params p)) of
             None \<Rightarrow> Some (Inl LibraryError)
           | Some gillespie \<Rightarrow>
               (case simulate_loop lib gillespie sim_length 0 (stateMonitor p) rng of
                  None \<Rightarrow> None
                | Some (Inl e) \<Rightarrow> Some (Inl e)
                | Some (Inr m') \<Rightarrow> Some (Inr (p\<lparr>stateMonitor := m'\<rparr>)))))"

subsection \<open>CohortOutcomes\<close>

text \<open>
  Modelled from the spec: \<^verbatim>\<open>PrevalencePathBatchUpdate\<close> of \<^verbatim>\<open>deampy.plots.sample_paths\<close>,
  which is not part of the sources. It is the step function of a population count over
  time, as the list of its \<open>(time, count)\<close> steps: the first step is the initial size at
  time 0, and the changes follow sorted ascending in time, each adding its increment to
  the count.
\<close>

fun record_increments :: "int \<Rightarrow> (real \<times> int) list \<Rightarrow> (real \<times> int) list" where
  "record_increments n [] = []"
| "record_increments n ((t, d) # cs) = (t, n + d) # record_increments (n + d) cs"

definition PrevalencePathBatchUpdate ::
  "int \<Rightarrow> real list \<Rightarrow> int list \<Rightarrow> (real \<times> int) list" where
  "PrevalencePathBatchUpdate initial_size times_of_changes increments =
     (0, initial_size) #
       record_increments initial_size (sort_key fst (zip times_of_changes increments))"

record 's CohortOutcomes =
  survivalTimes :: "real list"
  timesToAIDS :: "real list"
  costs :: "real list"
  utilities :: "real list"
  nLivingPatients :: "(real \<times> int) list option"
  statSurvivalTime :: "'s option"
  statTimeToAIDS :: "'s option"
  statCost :: "'s option"
  statUtility :: "'s option"

definition CohortOutcomes_init :: "'s CohortOutcomes" where
  "CohortOutcomes_init =
     \<lparr>survivalTimes = [], timesToAIDS = [], costs = [], utilities = [],
      nLivingPatients = None, statSurvivalTime = None, statTimeToAIDS = None,
      statCost = None, statUtility = None\<rparr>"

text \<open>\<^verbatim>\<open>CohortOutcomes.extract_outcome(simulated_patient)\<close>.\<close>

definition extract_outcome :: "'s CohortOutcomes \<Rightarrow> Patient \<Rightarrow> 's CohortOutcomes" where
  "extract_outcome out simulated_patient =
     (let m = stateMonitor simulated_patient;
          out1 = (case survivalTime m of
                    Some x \<Rightarrow> out\<lparr>survivalTimes := survivalTimes out @ [x]\<rparr>
                  | None \<Rightarrow> out);
          out2 = (case timeToAIDS m of
                    Some x \<Rightarrow> out1\<lparr>timesToAIDS := timesToAIDS out1 @ [x]\<rparr>
                  | None \<Rightarrow> out1)
      in out2\<lparr>costs := costs out2 @ [totalDiscountedCost (costUtilityMonitor m)],
              utilities := utilities out2 @ [totalDiscountedUtility (costUtilityMonitor m)]\<rparr>)"

text \<open>
  \<^verbatim>\<open>CohortOutcomes.calculate_cohort_outcomes(initial_pop_size)\<close>: the four summary
  statistics in the order of the source, then the survival curve.
\<close>

definition calculate_cohort_outcomes ::
  "('r, 'g, 's) library \<Rightarrow> 's CohortOutcomes \<Rightarrow> int \<Rightarrow> error + 's CohortOutcomes" where
  "calculate_cohort_outcomes lib out initial_pop_size =
     (case SummaryStat lib ''Survival time'' (survivalTimes out) of
        None \<Rightarrow> Inl LibraryError
      | Some s1 \<Rightarrow>
     (case SummaryStat lib ''Time until AIDS'' (timesToAIDS out) of
        None \<Rightarrow> Inl LibraryError
      | Some s2 \<Rightarrow>
     (case SummaryStat lib ''Discounted cost'' (costs out) of
        None \<Rightarrow> Inl LibraryError
      | Some s3 \<Rightarrow>
     (case SummaryStat lib ''Discounted utility'' (utilities out) of
        None \<Rightarrow> Inl LibraryError
      | Some s4 \<Rightarrow>
          Inr (out\<lparr>statSurvivalTime := Some s1, statTimeToAIDS := Some s2,
                    statCost := Some s3, statUtility := Some s4,
                    nLivingPatients :=
                      Some (PrevalencePathBatchUpdate initial_pop_size (survivalTimes out)
                              (replicate (length (survivalTimes out)) (- 1)))\<rparr>)))))"

subsection \<open>Cohort\<close>

record 's Cohort =
  coh_id :: int
  popSize :: int
  coh_params :: Parameters
  cohortOutcomes :: "'s CohortOutcomes"

text \<open>\<^verbatim>\<open>Cohort.__init__(id, pop_size, parameters)\<close>: four assignments, no check, no raise.\<close>

definition Cohort_init :: "int \<Rightarrow> int \<Rightarrow> Parameters \<Rightarrow> error + 's Cohort" where
  "Cohort_init i pop_size parameters =
     Inr \<lparr>coh_id = i, popSize = pop_size, coh_params = parameters,
          cohortOutcomes = CohortOutcomes_init\<rparr>"

text \<open>
  The \<^verbatim>\<open>for i in range(self.popSize)\<close> loop of \<^verbatim>\<open>Cohort.simulate\<close> over the indices still
  to run: a new patient with id \<open>id * popSize + i\<close>, its simulation, its outcomes.
\<close>

fun simulate_patients ::
  "('r, 'g, 's) library \<Rightarrow> 's Cohort \<Rightarrow> real \<Rightarrow> nat list \<Rightarrow> 's CohortOutcomes
     \<Rightarrow> (error + 's CohortOutcomes) option" where
  "simulate_patients lib c sim_length [] out = Some (Inr out)"
| "simulate_patients lib c sim_length (i # is) out =
     (case Patient_simulate lib
             (Patient_init (coh_id c * popSize c + int i) (coh_params c)) sim_length of
        None \<Rightarrow> None
      | Some (Inl e) \<Rightarrow> Some (Inl e)
      | Some (Inr patient) \<Rightarrow>
          simulate_patients lib c sim_length is (extract_outcome out patient))"

text \<open>\<^verbatim>\<open>Cohort.simulate(sim_length)\<close>; \<^verbatim>\<open>range(n)\<close> is empty for \<open>n \<le> 0\<close>.\<close>

definition Cohort_simulate ::
  "('r, 'g, 's) library \<Rightarrow> 's Cohort \<Rightarrow> real \<Rightarrow> (error + 's Cohort) option" where
  "Cohort_simulate lib c sim_length =
     (case simulate_patients lib c sim_length [0..<nat (popSize c)] (cohortOutcomes c) of
        None \<Rightarrow> None
      | Some (Inl e) \<Rightarrow> Some (Inl e)
      | Some (Inr out) \<Rightarrow>
          (case calculate_cohort_outcomes lib out (popSize c) of
             Inl e \<Rightarrow> Some (Inl e)
           | Inr out' \<Rightarrow> Some (Inr (c\<lparr>cohortOutcomes := out'\<rparr>))))"

subsection \<open>Notions used in the properties\<close>

text \<open>A sequence of calls of \<^verbatim>\<open>PatientCostUtilityMonitor.update\<close>, one \<open>(time, state)\<close> each.\<close>

fun PatientCostUtilityMonitor_updates ::
  "('r, 'g, 's) library \<Rightarrow> PatientCostUtilityMonitor \<Rightarrow> (real \<times> HealthStates) list
     \<Rightarrow> error + PatientCostUtilityMonitor" where
  "PatientCostUtilityMonitor_updates lib m [] = Inr m"
| "PatientCostUtilityMonitor_updates lib m ((time, s) # us) =
     (case PatientCostUtilityMonitor_update lib m time s of
        Inl e \<Rightarrow> Inl e
      | Inr m' \<Rightarrow> PatientCostUtilityMonitor_updates lib m' us)"

text \<open>
  The rates that \<^verbatim>\<open>PatientCostUtilityMonitor.update\<close> pays in the state of index \<open>i\<close>: its
  local variables \<^verbatim>\<open>cost\<close> and \<^verbatim>\<open>utility\<close>.
\<close>

definition cost_rate :: "Parameters \<Rightarrow> nat \<Rightarrow> real" where
  "cost_rate p i = annualStateCosts p ! i + annualTreatmentCost p"

definition utility_rate :: "Parameters \<Rightarrow> nat \<Rightarrow> real" where
  "utility_rate p i = annualStateUtilities p ! i"

text \<open>
  The cost rate and the utility rate of every state of the two lists are not negative.
\<close>

definition rates_nonneg :: "Parameters \<Rightarrow> bool" where
  "rates_nonneg p \<longleftrightarrow>
     list_all (\<lambda>c. 0 \<le> c + annualTreatmentCost p) (annualStateCosts p) \<and>
     list_all (\<lambda>u. 0 \<le> u) (annualStateUtilities p)"

text \<open>
  What the model needs of \<^verbatim>\<open>pv_continuous_payment\<close>: the present value of a non-negative
  payment over an interval that does not run backwards is not negative, and over an
  empty interval it is 0.
\<close>

definition pv_contract :: "('r, 'g, 's) library \<Rightarrow> bool" where
  "pv_contract lib \<longleftrightarrow>
     (\<forall>payment d t1 t2. 0 \<le> payment \<longrightarrow> t1 \<le> t2 \<longrightarrow>
        0 \<le> pv_continuous_payment lib payment d (t1, t2)) \<and>
     (\<forall>payment d t. pv_continuous_payment lib payment d (t, t) = 0)"

text \<open>
  What the model needs of the sampler. The two death states are absorbing: in them the
  sampler never returns a waiting time. No waiting time is negative. Every waiting time
  is at least \<open>eps\<close>.
\<close>

definition death_states_absorbing :: "('r, 'g, 's) library \<Rightarrow> 'g \<Rightarrow> bool" where
  "death_states_absorbing lib g \<longleftrightarrow>
     (\<forall>s rng dt j rng'. s = HIV_DEATH \<or> s = NATUAL_DEATH \<longrightarrow>
        get_next_state lib g (HealthStates_value s) rng \<noteq> Some ((Some dt, j), rng'))"

definition waiting_times_from :: "real \<Rightarrow> ('r, 'g, 's) library \<Rightarrow> 'g \<Rightarrow> bool" where
  "waiting_times_from eps lib g \<longleftrightarrow>
     (\<forall>i rng dt j rng'.
        get_next_state lib g i rng = Some ((Some dt, j), rng') \<longrightarrow> eps \<le> dt)"

text \<open>
  The \<^verbatim>\<open>while\<close> loop of \<^verbatim>\<open>Patient.simulate\<close> cut off after \<open>n\<close> passes: its result if it
  ends within \<open>n\<close> passes, \<open>None\<close> if it is still running then.
\<close>

fun simulate_passes ::
  "nat \<Rightarrow> ('r, 'g, 's) library \<Rightarrow> 'g \<Rightarrow> real \<Rightarrow> real \<Rightarrow> PatientStateMonitor \<Rightarrow> 'r
     \<Rightarrow> (error + PatientStateMonitor) option" where
  "simulate_passes 0 lib gillespie sim_length t m rng = None"
| "simulate_passes (Suc n) lib gillespie sim_length t m rng =
     (case simulate_step lib gillespie sim_length t m rng of
        Stopped m' \<Rightarrow> Some (Inr m')
      | Raised e \<Rightarrow> Some (Inl e)
      | Running t' m' rng' \<Rightarrow> simulate_passes n lib gillespie sim_length t' m' rng')"

text \<open>
  The sampler only moves to states of higher index, as it does over a rate matrix
  that is zero on and below its diagonal (the transition counts \<^verbatim>\<open>TRANS_MATRIX\<close> of
  \<^verbatim>\<open>input_data.py\<close> are upper triangular).
\<close>

definition sampler_progresses :: "('r, 'g, 's) library \<Rightarrow> 'g \<Rightarrow> bool" where
  "sampler_progresses lib g \<longleftrightarrow>
     (\<forall>i rng dt j rng'.
        get_next_state lib g i rng = Some ((Some dt, j), rng') \<longrightarrow> i < j)"

text \<open>
  The configurations (time, state monitor, random stream) at the head of the
  \<^verbatim>\<open>while\<close> loop of \<^verbatim>\<open>Patient.simulate\<close> in the run that starts in a given configuration.
\<close>

inductive reaches ::
  "('r, 'g, 's) library \<Rightarrow> 'g \<Rightarrow> real \<Rightarrow> real \<times> PatientStateMonitor \<times> 'r
     \<Rightarrow> real \<times> PatientStateMonitor \<times> 'r \<Rightarrow> bool"
  for lib :: "('r, 'g, 's) library" and gillespie :: 'g and sim_length :: real
    and c :: "real \<times> PatientStateMonitor \<times> 'r" where
  reaches_start: "reaches lib gillespie sim_length c c"
| reaches_step:
    "reaches lib gillespie sim_length c (t, m, rng) \<Longrightarrow>
     simulate_step lib gillespie sim_length t m rng = Running t' m' rng' \<Longrightarrow>
     reaches lib gillespie sim_length c (t', m', rng')"

text \<open>
  An invariant of the loop of \<^verbatim>\<open>Patient.simulate\<close>, at its head at time \<open>t\<close>: a time to AIDS
  that is set is at most \<open>t\<close>, and once the survival time is set the patient is in a death
  state and the time to AIDS, if set, is at most the survival time.
\<close>

definition times_ordered :: "real \<Rightarrow> PatientStateMonitor \<Rightarrow> bool" where
  "times_ordered t m \<longleftrightarrow>
     (\<forall>a. timeToAIDS m = Some a \<longrightarrow> a \<le> t) \<and>
     (\<forall>s. survivalTime m = Some s \<longrightarrow>
        (currentState m = HIV_DEATH \<or> currentState m = NATUAL_DEATH) \<and>
        (\<forall>a. timeToAIDS m = Some a \<longrightarrow> a \<le> s))"

subsection \<open>A deterministic instance of the libraries\<close>

text \<open>
  Modelled from the spec: \<^verbatim>\<open>pv_continuous_payment\<close> of \<^verbatim>\<open>deampy.econ_eval\<close>, which is
  not part of the sources: the present value of a constant payment stream over the
  interval, \<open>payment * (1 - exp (- discount * dt)) / discount\<close> for the length \<open>dt\<close> of the
  interval, and \<open>payment * dt\<close> at discount rate 0.
\<close>

definition pv_continuous_payment_spec :: "real \<Rightarrow> real \<Rightarrow> real \<times> real \<Rightarrow> real" where
  "pv_continuous_payment_spec payment discount_rate discount_period =
     (let dt = snd discount_period - fst discount_period in
      if discount_rate = 0 then payment * dt
      else payment * (1 - exp (- discount_rate * dt)) / discount_rate)"

text \<open>
  Modelled from the spec: the Event Sampler with its random draws fixed in advance. The
  random stream is a position \<open>k\<close> in a given sequence \<open>draws\<close> of pairs (waiting time,
  next state index), and a stream seeded with \<open>seed\<close> starts at position \<open>seed\<close>. In a
  state whose row of the rate matrix is all zero the sampler returns the sentinel and
  the state itself; in any other state it returns the draw at the position and moves on.
  A state index outside the matrix and a negative seed raise.
\<close>

definition absorbing_row :: "real list list \<Rightarrow> nat \<Rightarrow> bool" where
  "absorbing_row matrix i = list_all (\<lambda>x. x = 0) (matrix ! i)"

definition scripted_library ::
  "(nat \<Rightarrow> real \<times> nat) \<Rightarrow> (nat, real list list, real list) library" where
  "scripted_library draws =
     \<lparr>RandomState = (\<lambda>seed. if seed < 0 then None else Some (nat seed)),
      Gillespie = (\<lambda>matrix. Some matrix),
      get_next_state = (\<lambda>matrix i k.
         if length matrix \<le> i then None
         else if absorbing_row matrix i then Some ((None, i), k)
         else Some ((Some (fst (draws k)), snd (draws k)), Suc k)),
      pv_continuous_payment = pv_continuous_payment_spec,
      SummaryStat = (\<lambda>name data. Some data)\<rparr>"

text \<open>
  A parameter object for concrete runs: the five health states, the rate matrix with
  all-zero rows for the two death states, the state costs and utilities of
  \<^verbatim>\<open>input_data.py\<close>, and discount rate 0.
\<close>

definition example_params :: Parameters where
  "example_params =
     \<lparr>initialHealthState = CD4_200to500,
      transRateMatrix =
        [[0, 1, 1, 1, 1], [0, 0, 1, 1, 1], [0, 0, 0, 1, 1], [0, 0, 0, 0, 0], [0, 0, 0, 0, 0]],
      annualStateCosts = [2756, 3025, 9007, 0],
      annualStateUtilities = [9 / 10, 85 / 100, 75 / 100, 0],
      annualTreatmentCost = 2278,
      discountRate = 0\<rparr>"

text \<open>
  Draws for a run that ends: every waiting time is 1, and the draw at position \<open>k\<close> goes
  to the state of index \<open>k + 2\<close>.
\<close>

definition example_draws :: "nat \<Rightarrow> real \<times> nat" where
  "example_draws k = (1, k + 2)"

text \<open>The instance, the sampler and the fresh state monitor of the concrete runs.\<close>

definition example_library :: "(nat, real list list, real list) library" where
  "example_library = scripted_library example_draws"

definition example_matrix :: "real list list" where
  "example_matrix = transRateMatrix example_params"

definition example_monitor :: PatientStateMonitor where
  "example_monitor = PatientStateMonitor_init example_params"

text \<open>
  A rate matrix over the first two health states, each going to the other, and draws
  that follow it with the waiting times 1/2, 1/4, 1/8, ...
\<close>

definition cyclic_params :: Parameters where
  "cyclic_params = example_params\<lparr>transRateMatrix := [[0, 1], [1, 0]]\<rparr>"

definition zeno_draws :: "nat \<Rightarrow> real \<times> nat" where
  "zeno_draws k = (1 / 2 ^ Suc k, Suc k mod 2)"

text \<open>The instance and the sampler of the runs over the cyclic rate matrix.\<close>

definition cyclic_library :: "(nat, real list list, real list) library" where
  "cyclic_library = scripted_library zeno_draws"

definition cyclic_matrix :: "real list list" where
  "cyclic_matrix = transRateMatrix cyclic_params"

text \<open>
  Modelled from the spec: the Event Sampler over a rate matrix in which every state
  that is not absorbing goes to the next state only, with its waiting times fixed in
  advance: the waiting time at position \<open>k\<close> of the random stream is \<open>waits k\<close>.
\<close>

definition stepwise_library ::
  "(nat \<Rightarrow> real) \<Rightarrow> (nat, real list list, real list) library" where
  "stepwise_library waits =
     \<lparr>RandomState = (\<lambda>seed. if seed < 0 then None else Some (nat seed)),
      Gillespie = (\<lambda>matrix. Some matrix),
      get_next_state = (\<lambda>matrix i k.
         if length matrix \<le> i then None
         else if absorbing_row matrix i then Some ((None, i), k)
         else Some ((Some (waits k), Suc i), Suc k)),
      pv_continuous_payment = pv_continuous_payment_spec,
      SummaryStat = (\<lambda>name data. Some data)\<rparr>"

text \<open>The waiting times 1/2, 1/4, 1/8, ...\<close>

definition zeno_waits :: "nat \<Rightarrow> real" where
  "zeno_waits k = 1 / 2 ^ Suc k"

section \<open>Properties\<close>

subsection \<open>Auxiliary facts\<close>

lemma HealthStates_of_value: "HealthStates_of (HealthStates_value s) = Inr s"
  by (cases s) (simp_all add: HealthStates_of_def)

text \<open>
  The proof rule of the loop: a property \<open>I\<close> of the configurations that holds at the
  start and is kept by every pass that goes on holds when the loop ends.
\<close>

lemma simulate_loop_invariant:
  assumes run: "simulate_loop lib g L t m rng = Some y"
    and init: "I t m rng"
    and step: "\<And>t m rng t' m' rng'. I t m rng \<Longrightarrow>
                 simulate_step lib g L t m rng = Running t' m' rng' \<Longrightarrow> I t' m' rng'"
    and stop: "\<And>t m rng m'. I t m rng \<Longrightarrow>
                 simulate_step lib g L t m rng = Stopped m' \<Longrightarrow> Q (Inr m')"
    and raised: "\<And>t m rng e. I t m rng \<Longrightarrow>
                 simulate_step lib g L t m rng = Raised e \<Longrightarrow> Q (Inl e)"
  shows "Q y"
proof -
  define P where "P = (\<lambda>lib' g' L' t m rng y.
     lib' = lib \<longrightarrow> g' = g \<longrightarrow> L' = L \<longrightarrow> I t m rng \<longrightarrow> Q y)"
  have "P lib g L t m rng y"
  proof (rule simulate_loop.raw_induct[where P = P, OF _ run])
    fix loop lib' g' L' t m rng y
    assume IH: "\<And>lib g L t m rng y. loop lib g L t m rng = Some y \<Longrightarrow> P lib g L t m rng y"
      and body: "(case simulate_step lib' g' L' t m rng of
                    Stopped m' \<Rightarrow> Some (Inr m')
                  | Running t' m' rng' \<Rightarrow> loop lib' g' L' t' m' rng'
                  | Raised e \<Rightarrow> Some (Inl e)) = Some y"
    show "P lib' g' L' t m rng y"
      unfolding P_def
    proof (intro impI)
      assume eq: "lib' = lib" "g' = g" "L' = L" and inv: "I t m rng"
      show "Q y"
      proof (cases "simulate_step lib g L t m rng")
        case (Stopped m')
        with body eq have "y = Inr m'" by simp
        with stop[OF inv Stopped] show ?thesis by simp
      next
        case (Running t' m' rng')
        with body eq have "loop lib g L t' m' rng' = Some y" by simp
        from IH[OF this] step[OF inv Running] show ?thesis by (simp add: P_def)
      next
        case (Raised e)
        with body eq have "y = Inl e" by simp
        with raised[OF inv Raised] show ?thesis by simp
      qed
    qed
  qed
  with init show ?thesis by (simp add: P_def)
qed

text \<open>A loop whose every pass goes on never ends.\<close>

lemma simulate_loop_diverges:
  assumes init: "I t m rng"
    and step: "\<And>t m rng. I t m rng \<Longrightarrow>
                 \<exists>t' m' rng'. simulate_step lib g L t m rng = Running t' m' rng' \<and> I t' m' rng'"
  shows "simulate_loop lib g L t m rng = None"
proof (cases "simulate_loop lib g L t m rng")
  case None then show ?thesis .
next
  case (Some y)
  have False
    by (rule simulate_loop_invariant[where I = I and Q = "\<lambda>_. False", OF Some init])
       (use step in fastforce)+
  then show ?thesis ..
qed

lemmas example_defs = example_library_def scripted_library_def example_draws_def
  example_params_def example_matrix_def example_monitor_def absorbing_row_def
  PatientStateMonitor_init_def PatientCostUtilityMonitor_init_def

lemmas model_defs = simulate_step_def HealthStates_of_def PatientStateMonitor_update_def
  PatientCostUtilityMonitor_update_def pv_continuous_payment_spec_def

subsection \<open>The simulation step\<close>

text \<open>
  C1. One pass of the loop of \<^verbatim>\<open>Patient.simulate\<close>, from time \<open>t\<close>, state monitor \<open>m\<close> and
  random stream \<open>rng\<close>. If the sampler returns the sentinel (\<open>dt\<close> is \<open>None\<close>), the loop
  ends with the monitor as it is: no update. If \<open>dt + t\<close> exceeds \<open>sim_length\<close>, the loop
  ends with the result of exactly one update of the monitor, at time \<open>sim_length\<close> and
  with the patient's current state as the new state. Otherwise exactly one update is
  applied at time \<open>t + dt\<close> with the sampled state, and the loop goes on from time
  \<open>t + dt\<close> with the updated monitor (an exception of the update or of
  \<^verbatim>\<open>HealthStates(new_state_index)\<close> leaves the loop).
\<close>

theorem simulate_per_step:
  "(\<forall>j rng'. get_next_state lib g (HealthStates_value (currentState m)) rng = Some ((None, j), rng')
      \<longrightarrow> simulate_loop lib g sim_length t m rng = Some (Inr m)) \<and>
   (\<forall>dt j rng'. get_next_state lib g (HealthStates_value (currentState m)) rng = Some ((Some dt, j), rng')
      \<and> dt + t > sim_length
      \<longrightarrow> simulate_loop lib g sim_length t m rng =
            Some (PatientStateMonitor_update lib m sim_length (currentState m))) \<and>
   (\<forall>dt j rng'. get_next_state lib g (HealthStates_value (currentState m)) rng = Some ((Some dt, j), rng')
      \<and> \<not> dt + t > sim_length
      \<longrightarrow> simulate_loop lib g sim_length t m rng =
            (case HealthStates_of j of
               Inl e \<Rightarrow> Some (Inl e)
             | Inr new_state \<Rightarrow>
                 (case PatientStateMonitor_update lib m (t + dt) new_state of
                    Inl e \<Rightarrow> Some (Inl e)
                  | Inr m' \<Rightarrow> simulate_loop lib g sim_length (t + dt) m' rng')))"
proof (intro conjI allI impI)
  fix j rng'
  assume "get_next_state lib g (HealthStates_value (currentState m)) rng = Some ((None, j), rng')"
  then show "simulate_loop lib g sim_length t m rng = Some (Inr m)"
    by (subst simulate_loop.simps) (simp add: simulate_step_def)
next
  fix dt j rng'
  assume "get_next_state lib g (HealthStates_value (currentState m)) rng = Some ((Some dt, j), rng')
      \<and> dt + t > sim_length"
  then show "simulate_loop lib g sim_length t m rng =
            Some (PatientStateMonitor_update lib m sim_length (currentState m))"
    by (subst simulate_loop.simps)
       (simp add: simulate_step_def HealthStates_of_value split: sum.split)
next
  fix dt j rng'
  assume "get_next_state lib g (HealthStates_value (currentState m)) rng = Some ((Some dt, j), rng')
      \<and> \<not> dt + t > sim_length"
  then show "simulate_loop lib g sim_length t m rng =
            (case HealthStates_of j of
               Inl e \<Rightarrow> Some (Inl e)
             | Inr new_state \<Rightarrow>
                 (case PatientStateMonitor_update lib m (t + dt) new_state of
                    Inl e \<Rightarrow> Some (Inl e)
                  | Inr m' \<Rightarrow> simulate_loop lib g sim_length (t + dt) m' rng'))"
    by (subst simulate_loop.simps)
       (simp add: simulate_step_def split: sum.split)
qed

theorem simulate_per_step_witness:
  "get_next_state example_library example_matrix
     (HealthStates_value (currentState (example_monitor\<lparr>currentState := HIV_DEATH\<rparr>))) 0
     = Some ((None, 3), 0) \<and>
   simulate_loop example_library example_matrix 10 2
     (example_monitor\<lparr>currentState := HIV_DEATH\<rparr>) 0
     = Some (Inr (example_monitor\<lparr>currentState := HIV_DEATH\<rparr>)) \<and>
   get_next_state example_library example_matrix
     (HealthStates_value (currentState example_monitor)) 0 = Some ((Some 1, 2), 1) \<and>
   (1::real) + 0 > 1 / 2 \<and>
   simulate_loop example_library example_matrix (1 / 2) 0 example_monitor 0
     = Some (PatientStateMonitor_update example_library example_monitor (1 / 2) CD4_200to500) \<and>
   \<not> (1::real) + 0 > 10 \<and>
   simulate_loop example_library example_matrix 10 0 example_monitor 0
     = (case PatientStateMonitor_update example_library example_monitor 1 AIDS of
          Inl e \<Rightarrow> Some (Inl e)
        | Inr m' \<Rightarrow> simulate_loop example_library example_matrix 10 1 m' 1)"
proof -
  have h1: "get_next_state example_library example_matrix
     (HealthStates_value (currentState (example_monitor\<lparr>currentState := HIV_DEATH\<rparr>))) 0
     = Some ((None, 3), 0)"
    by (simp add: example_defs)
  have h2: "get_next_state example_library example_matrix
     (HealthStates_value (currentState example_monitor)) 0 = Some ((Some 1, 2), 1)"
    by (simp add: example_defs)
  have c1: "simulate_loop example_library example_matrix 10 2
     (example_monitor\<lparr>currentState := HIV_DEATH\<rparr>) 0
     = Some (Inr (example_monitor\<lparr>currentState := HIV_DEATH\<rparr>))"
    using simulate_per_step[of example_library example_matrix
        "example_monitor\<lparr>currentState := HIV_DEATH\<rparr>" 0 10 2] h1
    by blast
  have c2: "simulate_loop example_library example_matrix (1 / 2) 0 example_monitor 0
     = Some (PatientStateMonitor_update example_library example_monitor (1 / 2) CD4_200to500)"
    using simulate_per_step[of example_library example_matrix example_monitor 0 "1 / 2" 0] h2
    by (simp add: example_monitor_def PatientStateMonitor_init_def example_params_def)
  have c3: "simulate_loop example_library example_matrix 10 0 example_monitor 0
     = (case PatientStateMonitor_update example_library example_monitor 1 AIDS of
          Inl e \<Rightarrow> Some (Inl e)
        | Inr m' \<Rightarrow> simulate_loop example_library example_matrix 10 1 m' 1)"
    using simulate_per_step[of example_library example_matrix example_monitor 0 10 0] h2
    by (simp add: HealthStates_of_def cong: sum.case_cong)
  from h1 h2 c1 c2 c3 show ?thesis by simp
qed

subsection \<open>The state monitor and the cost and utility monitor\<close>

lemma PatientCostUtilityMonitor_update_params:
  "PatientCostUtilityMonitor_update lib m time s = Inr m' \<Longrightarrow> cu_params m' = cu_params m"
  by (auto simp: PatientCostUtilityMonitor_update_def Let_def split: if_splits)

lemma PatientStateMonitor_update_params:
  "PatientStateMonitor_update lib m time s = Inr m' \<Longrightarrow>
     cu_params (costUtilityMonitor m') = cu_params (costUtilityMonitor m)"
  by (auto simp: PatientStateMonitor_update_def Let_def
      dest: PatientCostUtilityMonitor_update_params split: if_splits sum.splits)

text \<open>
  C2. \<^verbatim>\<open>PatientStateMonitor.update(time, new_state)\<close> calls the cost and utility monitor
  with the state the monitor is in before the update, and the new state only replaces
  it in the result. If that call raises, the update raises the same; otherwise the
  monitor after the update holds the accumulator the call returned and \<open>new_state\<close> as
  current state. The amounts added are the present values, over the interval from
  the last recorded time to \<open>time\<close>, of the cost rate and the utility rate of the state
  that is left, whatever \<open>new_state\<close> is.
\<close>

theorem PatientStateMonitor_update_vacated_state:
  "(\<forall>e. PatientCostUtilityMonitor_update lib (costUtilityMonitor m) time (currentState m) = Inl e
      \<longrightarrow> PatientStateMonitor_update lib m time new_state = Inl e) \<and>
   (\<forall>cu. PatientCostUtilityMonitor_update lib (costUtilityMonitor m) time (currentState m) = Inr cu
      \<longrightarrow> (\<exists>m'. PatientStateMonitor_update lib m time new_state = Inr m' \<and>
                costUtilityMonitor m' = cu \<and> currentState m' = new_state \<and>
                totalDiscountedCost cu =
                  totalDiscountedCost (costUtilityMonitor m) +
                  pv_continuous_payment lib
                    (cost_rate (cu_params (costUtilityMonitor m))
                       (HealthStates_value (currentState m)))
                    (discountRate (cu_params (costUtilityMonitor m)))
                    (tLastRecorded (costUtilityMonitor m), time) \<and>
                totalDiscountedUtility cu =
                  totalDiscountedUtility (costUtilityMonitor m) +
                  pv_continuous_payment lib
                    (utility_rate (cu_params (costUtilityMonitor m))
                       (HealthStates_value (currentState m)))
                    (discountRate (cu_params (costUtilityMonitor m)))
                    (tLastRecorded (costUtilityMonitor m), time) \<and>
                tLastRecorded cu = time))"
  by (auto simp: PatientStateMonitor_update_def PatientCostUtilityMonitor_update_def Let_def
      cost_rate_def utility_rate_def split: if_splits)

text \<open>
  A patient in the first state (cost rate 2756 + 2278, utility rate 0.9) moves to AIDS
  (cost rate 9007 + 2278) at time 2, discount rate 0: the two years are paid at the
  rates of the first state.
\<close>

theorem PatientStateMonitor_update_vacated_state_witness:
  "PatientCostUtilityMonitor_update example_library (costUtilityMonitor example_monitor) 2
     (currentState example_monitor)
     = Inr ((costUtilityMonitor example_monitor)
              \<lparr>totalDiscountedCost := 10068, totalDiscountedUtility := 9 / 5,
               tLastRecorded := 2\<rparr>) \<and>
   (\<exists>m'. PatientStateMonitor_update example_library example_monitor 2 AIDS = Inr m' \<and>
         currentState m' = AIDS \<and>
         totalDiscountedCost (costUtilityMonitor m') = 10068 \<and>
         totalDiscountedUtility (costUtilityMonitor m') = 9 / 5 \<and>
         tLastRecorded (costUtilityMonitor m') = 2)"
proof -
  have h: "PatientCostUtilityMonitor_update example_library (costUtilityMonitor example_monitor) 2
     (currentState example_monitor)
     = Inr ((costUtilityMonitor example_monitor)
              \<lparr>totalDiscountedCost := 10068, totalDiscountedUtility := 9 / 5,
               tLastRecorded := 2\<rparr>)"
    by (simp add: example_defs model_defs)
  from PatientStateMonitor_update_vacated_state[of example_library example_monitor 2 AIDS] h
  have "\<exists>m'. PatientStateMonitor_update example_library example_monitor 2 AIDS = Inr m' \<and>
         costUtilityMonitor m' = (costUtilityMonitor example_monitor)
              \<lparr>totalDiscountedCost := 10068, totalDiscountedUtility := 9 / 5,
               tLastRecorded := 2\<rparr> \<and> currentState m' = AIDS"
    by blast
  then obtain m' where
    "PatientStateMonitor_update example_library example_monitor 2 AIDS = Inr m'"
    "costUtilityMonitor m' = (costUtilityMonitor example_monitor)
              \<lparr>totalDiscountedCost := 10068, totalDiscountedUtility := 9 / 5,
               tLastRecorded := 2\<rparr>" "currentState m' = AIDS"
    by blast
  then have "PatientStateMonitor_update example_library example_monitor 2 AIDS = Inr m' \<and>
         currentState m' = AIDS \<and>
         totalDiscountedCost (costUtilityMonitor m') = 10068 \<and>
         totalDiscountedUtility (costUtilityMonitor m') = 9 / 5 \<and>
         tLastRecorded (costUtilityMonitor m') = 2"
    by simp
  then have "\<exists>m'. PatientStateMonitor_update example_library example_monitor 2 AIDS = Inr m' \<and>
         currentState m' = AIDS \<and>
         totalDiscountedCost (costUtilityMonitor m') = 10068 \<and>
         totalDiscountedUtility (costUtilityMonitor m') = 9 / 5 \<and>
         tLastRecorded (costUtilityMonitor m') = 2" ..
  with h show ?thesis by (rule conjI)
qed

text \<open>The present value of the spec keeps the contract, at every discount rate.\<close>

lemma pv_continuous_payment_spec_nonneg:
  assumes "0 \<le> payment" "t1 \<le> t2"
  shows "0 \<le> pv_continuous_payment_spec payment d (t1, t2)"
proof -
  consider "d = 0" | "0 < d" | "d < 0" by linarith
  then show ?thesis
  proof cases
    case 1
    with assms show ?thesis by (simp add: pv_continuous_payment_spec_def)
  next
    case 2
    with assms have "d * t1 \<le> d * t2" by simp
    then have "0 \<le> 1 - exp (- d * (t2 - t1))" by (simp add: algebra_simps)
    with 2 assms show ?thesis by (simp add: pv_continuous_payment_spec_def)
  next
    case 3
    with assms have "d * t2 \<le> d * t1" by (simp add: mult_left_mono_neg)
    then have "1 - exp (- d * (t2 - t1)) \<le> 0" by (simp add: algebra_simps)
    with 3 assms have "0 \<le> payment * (1 - exp (- d * (t2 - t1))) / d"
      by (simp add: divide_nonpos_neg mult_nonneg_nonpos)
    with 3 show ?thesis by (simp add: pv_continuous_payment_spec_def)
  qed
qed

lemma pv_contract_scripted_library: "pv_contract (scripted_library draws)"
  by (simp add: pv_contract_def scripted_library_def pv_continuous_payment_spec_nonneg)
     (simp add: pv_continuous_payment_spec_def)

lemma PatientCostUtilityMonitor_update_mono:
  assumes "pv_contract lib" "rates_nonneg (cu_params m)" "tLastRecorded m \<le> time"
    and "PatientCostUtilityMonitor_update lib m time s = Inr m'"
  shows "totalDiscountedCost m \<le> totalDiscountedCost m' \<and>
         totalDiscountedUtility m \<le> totalDiscountedUtility m' \<and>
         tLastRecorded m' = time \<and> cu_params m' = cu_params m"
proof -
  let ?p = "cu_params m" and ?i = "HealthStates_value s"
  from assms(4) have i: "?i < length (annualStateCosts ?p)" "?i < length (annualStateUtilities ?p)"
    by (auto simp: PatientCostUtilityMonitor_update_def Let_def split: if_splits)
  with assms(2) have "0 \<le> annualStateCosts ?p ! ?i + annualTreatmentCost ?p"
    "0 \<le> annualStateUtilities ?p ! ?i"
    by (auto simp: rates_nonneg_def list_all_length)
  with assms(1,3) have
    "0 \<le> pv_continuous_payment lib (annualStateCosts ?p ! ?i + annualTreatmentCost ?p)
           (discountRate ?p) (tLastRecorded m, time)"
    "0 \<le> pv_continuous_payment lib (annualStateUtilities ?p ! ?i)
           (discountRate ?p) (tLastRecorded m, time)"
    by (simp_all add: pv_contract_def)
  with assms(4) i show ?thesis
    by (auto simp: PatientCostUtilityMonitor_update_def Let_def)
qed

lemma PatientCostUtilityMonitor_updates_mono:
  assumes "pv_contract lib"
  shows "rates_nonneg (cu_params m) \<Longrightarrow> sorted (map fst us) \<Longrightarrow>
         \<forall>t\<in>set (map fst us). tLastRecorded m \<le> t \<Longrightarrow>
         PatientCostUtilityMonitor_updates lib m us = Inr m' \<Longrightarrow>
         totalDiscountedCost m \<le> totalDiscountedCost m' \<and>
         totalDiscountedUtility m \<le> totalDiscountedUtility m'"
proof (induction us arbitrary: m)
  case Nil
  then show ?case by simp
next
  case (Cons u us)
  obtain time s where u: "u = (time, s)" by (cases u)
  from Cons.prems(4) u obtain m1 where
    m1: "PatientCostUtilityMonitor_update lib m time s = Inr m1"
    and rest: "PatientCostUtilityMonitor_updates lib m1 us = Inr m'"
    by (auto split: sum.splits)
  from Cons.prems(3) u have "tLastRecorded m \<le> time" by simp
  from PatientCostUtilityMonitor_update_mono[OF assms Cons.prems(1) this m1]
  have step: "totalDiscountedCost m \<le> totalDiscountedCost m1"
    "totalDiscountedUtility m \<le> totalDiscountedUtility m1"
    "tLastRecorded m1 = time" "cu_params m1 = cu_params m"
    by simp_all
  from Cons.prems(2) u have "sorted (map fst us)" "\<forall>t\<in>set (map fst us). time \<le> t"
    by simp_all
  with Cons.IH[of m1] step Cons.prems(1) rest
  have "totalDiscountedCost m1 \<le> totalDiscountedCost m' \<and>
        totalDiscountedUtility m1 \<le> totalDiscountedUtility m'"
    by simp
  with step show ?case by linarith
qed

lemma PatientCostUtilityMonitor_updates_last:
  "PatientCostUtilityMonitor_updates lib m us = Inr m' \<Longrightarrow>
     cu_params m' = cu_params m \<and> tLastRecorded m' = last (tLastRecorded m # map fst us)"
proof (induction us arbitrary: m)
  case Nil
  then show ?case by simp
next
  case (Cons u us)
  obtain time s where u: "u = (time, s)" by (cases u)
  from Cons.prems u obtain m1 where
    m1: "PatientCostUtilityMonitor_update lib m time s = Inr m1"
    and rest: "PatientCostUtilityMonitor_updates lib m1 us = Inr m'"
    by (auto split: sum.splits)
  from m1 have "cu_params m1 = cu_params m" "tLastRecorded m1 = time"
    by (auto simp: PatientCostUtilityMonitor_update_def Let_def split: if_splits)
  with Cons.IH[OF rest] u show ?case by simp
qed

lemma PatientCostUtilityMonitor_updates_append:
  "PatientCostUtilityMonitor_updates lib m (us1 @ us2) =
     (case PatientCostUtilityMonitor_updates lib m us1 of
        Inl e \<Rightarrow> Inl e
      | Inr m1 \<Rightarrow> PatientCostUtilityMonitor_updates lib m1 us2)"
  by (induction us1 arbitrary: m) (auto split: sum.splits)

lemma PatientCostUtilityMonitor_updates_zero:
  assumes "pv_contract lib"
  shows "\<forall>t\<in>set (map fst us). t = tLastRecorded m \<Longrightarrow>
         PatientCostUtilityMonitor_updates lib m us = Inr m' \<Longrightarrow>
         totalDiscountedCost m' = totalDiscountedCost m \<and>
         totalDiscountedUtility m' = totalDiscountedUtility m"
proof (induction us arbitrary: m)
  case Nil
  then show ?case by simp
next
  case (Cons u us)
  obtain time s where u: "u = (time, s)" by (cases u)
  from Cons.prems(2) u obtain m1 where
    m1: "PatientCostUtilityMonitor_update lib m time s = Inr m1"
    and rest: "PatientCostUtilityMonitor_updates lib m1 us = Inr m'"
    by (auto split: sum.splits)
  from Cons.prems(1) u have time: "time = tLastRecorded m" by simp
  with m1 assms have "totalDiscountedCost m1 = totalDiscountedCost m"
    "totalDiscountedUtility m1 = totalDiscountedUtility m" "tLastRecorded m1 = tLastRecorded m"
    by (auto simp: PatientCostUtilityMonitor_update_def Let_def pv_contract_def split: if_splits)
  with Cons.IH[OF _ rest] Cons.prems(1) show ?case by simp
qed

text \<open>
  C3. From a new cost and utility monitor, along any sequence of updates whose times
  do not decrease (from the time 0 of the new monitor), with cost and utility rates
  that are not negative, the two totals never decrease: the totals after a part of
  the sequence are at most the totals after the whole of it. Both totals are 0 in the
  new monitor, and still 0 after updates that are all at time 0. The cost rate of a
  state is the rate the update pays, the state's annual cost plus the annual
  treatment cost; the present value function is the library's, with the contract
  \<open>pv_contract\<close>.
\<close>

theorem totals_nondecreasing:
  "pv_contract lib \<Longrightarrow> rates_nonneg p \<Longrightarrow> sorted (map fst us) \<Longrightarrow>
   \<forall>t\<in>set (map fst us). 0 \<le> t \<Longrightarrow>
   totalDiscountedCost (PatientCostUtilityMonitor_init p) = 0 \<and>
   totalDiscountedUtility (PatientCostUtilityMonitor_init p) = 0 \<and>
   (\<forall>us1 us2 m1 m2. us = us1 @ us2 \<longrightarrow>
      PatientCostUtilityMonitor_updates lib (PatientCostUtilityMonitor_init p) us1 = Inr m1 \<longrightarrow>
      PatientCostUtilityMonitor_updates lib (PatientCostUtilityMonitor_init p) us = Inr m2 \<longrightarrow>
      0 \<le> totalDiscountedCost m1 \<and> totalDiscountedCost m1 \<le> totalDiscountedCost m2 \<and>
      0 \<le> totalDiscountedUtility m1 \<and> totalDiscountedUtility m1 \<le> totalDiscountedUtility m2) \<and>
   (\<forall>m. (\<forall>t\<in>set (map fst us). t = 0) \<longrightarrow>
      PatientCostUtilityMonitor_updates lib (PatientCostUtilityMonitor_init p) us = Inr m \<longrightarrow>
      totalDiscountedCost m = 0 \<and> totalDiscountedUtility m = 0)"
proof (intro conjI allI impI)
  assume pv: "pv_contract lib" and rates: "rates_nonneg p" and srt: "sorted (map fst us)"
    and pos: "\<forall>t\<in>set (map fst us). 0 \<le> t"
  let ?m0 = "PatientCostUtilityMonitor_init p"
  have m0: "cu_params ?m0 = p" "tLastRecorded ?m0 = 0" "totalDiscountedCost ?m0 = 0"
    "totalDiscountedUtility ?m0 = 0"
    by (simp_all add: PatientCostUtilityMonitor_init_def)
  show "totalDiscountedCost ?m0 = 0" "totalDiscountedUtility ?m0 = 0" by (simp_all add: m0)
  {
    fix us1 us2 m1 m2
    assume us: "us = us1 @ us2"
      and r1: "PatientCostUtilityMonitor_updates lib ?m0 us1 = Inr m1"
      and r2: "PatientCostUtilityMonitor_updates lib ?m0 us = Inr m2"
    from us srt have s1: "sorted (map fst us1)" and s2: "sorted (map fst us2)"
      and s12: "\<forall>x\<in>set (map fst us1). \<forall>y\<in>set (map fst us2). x \<le> y"
      by (auto simp: sorted_append)
    from us pos have p1: "\<forall>t\<in>set (map fst us1). tLastRecorded ?m0 \<le> t" by (simp add: m0)
    from PatientCostUtilityMonitor_updates_mono[OF pv _ s1 p1 r1] rates m0
    have a: "0 \<le> totalDiscountedCost m1" "0 \<le> totalDiscountedUtility m1" by simp_all
    from PatientCostUtilityMonitor_updates_last[OF r1] m0
    have l1: "cu_params m1 = p" "tLastRecorded m1 = last (0 # map fst us1)" by simp_all
    have p2: "\<forall>t\<in>set (map fst us2). tLastRecorded m1 \<le> t"
    proof (cases "us1 = []")
      case True
      with l1 us pos show ?thesis by simp
    next
      case False
      then have "last (map fst us1) \<in> set (map fst us1)"
        using last_in_set[of "map fst us1"] by simp
      moreover from False l1 have "tLastRecorded m1 = last (map fst us1)" by simp
      ultimately show ?thesis using s12 by metis
    qed
    from r2 us r1 have r3: "PatientCostUtilityMonitor_updates lib m1 us2 = Inr m2"
      by (simp add: PatientCostUtilityMonitor_updates_append)
    from PatientCostUtilityMonitor_updates_mono[OF pv _ s2 p2 r3] rates l1
    have b: "totalDiscountedCost m1 \<le> totalDiscountedCost m2"
      "totalDiscountedUtility m1 \<le> totalDiscountedUtility m2" by simp_all
    from a b show "0 \<le> totalDiscountedCost m1" "totalDiscountedCost m1 \<le> totalDiscountedCost m2"
      "0 \<le> totalDiscountedUtility m1" "totalDiscountedUtility m1 \<le> totalDiscountedUtility m2"
      by simp_all
  }
  {
    fix m
    assume z: "\<forall>t\<in>set (map fst us). t = 0"
      and r: "PatientCostUtilityMonitor_updates lib ?m0 us = Inr m"
    from z have "\<forall>t\<in>set (map fst us). t = tLastRecorded ?m0" by (simp add: m0)
    from PatientCostUtilityMonitor_updates_zero[OF pv this r] m0
    show "totalDiscountedCost m = 0" "totalDiscountedUtility m = 0" by simp_all
  }
qed

text \<open>
  One year in the first state and two more in the second, at discount rate 0: the totals
  are 5034 and 0.9 after the first update, 15640 and 2.6 after the second.
\<close>

theorem totals_nondecreasing_witness:
  "pv_contract example_library \<and> rates_nonneg example_params \<and>
   sorted (map fst [(1 :: real, CD4_200to500), (3, CD4_200)]) \<and>
   (\<exists>m1 m2.
      PatientCostUtilityMonitor_updates example_library
        (PatientCostUtilityMonitor_init example_params) [(1, CD4_200to500)] = Inr m1 \<and>
      PatientCostUtilityMonitor_updates example_library
        (PatientCostUtilityMonitor_init example_params) [(1, CD4_200to500), (3, CD4_200)] = Inr m2 \<and>
      totalDiscountedCost m1 = 5034 \<and> totalDiscountedCost m2 = 15640 \<and>
      totalDiscountedUtility m1 = 9 / 10 \<and> totalDiscountedUtility m2 = 26 / 10 \<and>
      totalDiscountedCost m1 \<le> totalDiscountedCost m2 \<and>
      totalDiscountedUtility m1 \<le> totalDiscountedUtility m2)"
proof -
  let ?m0 = "PatientCostUtilityMonitor_init example_params"
  let ?us = "[(1 :: real, CD4_200to500), (3, CD4_200)]"
  have pv: "pv_contract example_library"
    by (simp add: example_library_def pv_contract_scripted_library)
  have rates: "rates_nonneg example_params"
    by (simp add: rates_nonneg_def example_params_def)
  have srt: "sorted (map fst ?us)" by simp
  have pos: "\<forall>t\<in>set (map fst ?us). 0 \<le> t" by simp
  obtain m1 where r1: "PatientCostUtilityMonitor_updates example_library ?m0
      [(1, CD4_200to500)] = Inr m1"
    and v1: "totalDiscountedCost m1 = 5034" "totalDiscountedUtility m1 = 9 / 10"
    by (simp add: example_defs model_defs)
  obtain m2 where r2: "PatientCostUtilityMonitor_updates example_library ?m0 ?us = Inr m2"
    and v2: "totalDiscountedCost m2 = 15640" "totalDiscountedUtility m2 = 26 / 10"
    by (simp add: example_defs model_defs)
  from totals_nondecreasing[OF pv rates srt pos] r1 r2
  have "totalDiscountedCost m1 \<le> totalDiscountedCost m2 \<and>
        totalDiscountedUtility m1 \<le> totalDiscountedUtility m2"
    by (metis append_Cons append_Nil)
  with pv rates srt r1 r2 v1 v2 show ?thesis by blast
qed

subsection \<open>Invariants of a patient's run\<close>

lemma PatientStateMonitor_update_fields:
  assumes "PatientStateMonitor_update lib m time new_state = Inr m'"
  shows "currentState m' = new_state"
    and "survivalTime m' =
           (if new_state = HIV_DEATH \<or> new_state = NATUAL_DEATH then Some time
            else survivalTime m)"
    and "timeToAIDS m' =
           (if currentState m \<noteq> AIDS \<and> new_state = AIDS then Some time else timeToAIDS m)"
  using assms
  by (auto simp: PatientStateMonitor_update_def Let_def split: if_splits sum.splits)

lemma simulate_step_Running:
  assumes "simulate_step lib g L t m rng = Running t' m' rng'"
  obtains dt j new_state where
    "get_next_state lib g (HealthStates_value (currentState m)) rng = Some ((Some dt, j), rng')"
    "\<not> dt + t > L" "t' = t + dt" "HealthStates_of j = Inr new_state"
    "PatientStateMonitor_update lib m (t + dt) new_state = Inr m'"
  using assms
  by (auto simp: simulate_step_def split: option.splits if_splits sum.splits)

lemma simulate_step_Stopped:
  assumes "simulate_step lib g L t m rng = Stopped m'"
  obtains (sentinel) j rng' where
    "get_next_state lib g (HealthStates_value (currentState m)) rng = Some ((None, j), rng')"
    "m' = m"
  | (horizon) dt j rng' where
    "get_next_state lib g (HealthStates_value (currentState m)) rng = Some ((Some dt, j), rng')"
    "dt + t > L" "PatientStateMonitor_update lib m L (currentState m) = Inr m'"
  using assms
  by (auto simp: simulate_step_def HealthStates_of_value split: option.splits if_splits sum.splits)

lemma simulate_step_Raised:
  assumes "simulate_step lib g L t m rng = Raised e"
  obtains (library) "get_next_state lib g (HealthStates_value (currentState m)) rng = None"
    "e = LibraryError"
  | (horizon) dt j rng' where
    "get_next_state lib g (HealthStates_value (currentState m)) rng = Some ((Some dt, j), rng')"
    "dt + t > L" "PatientStateMonitor_update lib m L (currentState m) = Inl e"
  | (member) dt j rng' where
    "get_next_state lib g (HealthStates_value (currentState m)) rng = Some ((Some dt, j), rng')"
    "\<not> dt + t > L" "HealthStates_of j = Inl e"
  | (update) dt j rng' new_state where
    "get_next_state lib g (HealthStates_value (currentState m)) rng = Some ((Some dt, j), rng')"
    "\<not> dt + t > L" "HealthStates_of j = Inr new_state"
    "PatientStateMonitor_update lib m (t + dt) new_state = Inl e"
  using assms
  by (auto simp: simulate_step_def HealthStates_of_value split: option.splits if_splits sum.splits)

lemma death_states_absorbingD:
  assumes "death_states_absorbing lib g"
    and "get_next_state lib g (HealthStates_value s) rng = Some ((Some dt, j), rng')"
  shows "s \<noteq> HIV_DEATH" "s \<noteq> NATUAL_DEATH"
  using assms unfolding death_states_absorbing_def by blast+

lemma Patient_simulate_Inr:
  assumes "Patient_simulate lib p L = Some (Inr p')"
  obtains rng g m' where "RandomState lib (pat_id p) = Some rng"
    "Gillespie lib (transRateMatrix (pat_params p)) = Some g"
    "simulate_loop lib g L 0 (stateMonitor p) rng = Some (Inr m')"
    "p' = p\<lparr>stateMonitor := m'\<rparr>"
  using assms
  by (auto simp: Patient_simulate_def split: option.splits sum.splits)

lemma times_ordered_step:
  assumes abs: "death_states_absorbing lib g" and nonneg: "waiting_times_from 0 lib g"
    and inv: "times_ordered t m"
    and step: "simulate_step lib g L t m rng = Running t' m' rng'"
  shows "times_ordered t' m'"
proof -
  from step obtain dt j new_state where
    s: "get_next_state lib g (HealthStates_value (currentState m)) rng = Some ((Some dt, j), rng')"
    and t': "t' = t + dt"
    and u: "PatientStateMonitor_update lib m (t + dt) new_state = Inr m'"
    by (rule simulate_step_Running)
  from nonneg s have dt: "0 \<le> dt" unfolding waiting_times_from_def by blast
  from death_states_absorbingD[OF abs s] inv have alive: "survivalTime m = None"
    by (cases "survivalTime m") (auto simp: times_ordered_def)
  from inv dt t' alive show ?thesis
    unfolding times_ordered_def PatientStateMonitor_update_fields[OF u]
    by (auto split: if_splits)
qed

lemma times_ordered_stop:
  assumes abs: "death_states_absorbing lib g"
    and inv: "times_ordered t m"
    and step: "simulate_step lib g L t m rng = Stopped m'"
    and s: "survivalTime m' = Some s" and a: "timeToAIDS m' = Some a"
  shows "a \<le> s"
  using step
proof (cases rule: simulate_step_Stopped)
  case (sentinel j rng')
  with inv s a show ?thesis by (simp add: times_ordered_def)
next
  case (horizon dt j rng')
  from death_states_absorbingD[OF abs horizon(1)]
  have nd: "currentState m \<noteq> HIV_DEATH" "currentState m \<noteq> NATUAL_DEATH" .
  with inv have "survivalTime m = None"
    by (cases "survivalTime m") (auto simp: times_ordered_def)
  with nd s show ?thesis
    unfolding PatientStateMonitor_update_fields[OF horizon(3)] by simp
qed

text \<open>
  C4. If the sampler treats the two death states as absorbing and draws no negative
  waiting time, then at the end of \<^verbatim>\<open>Patient.simulate\<close> of a new patient a survival time
  and a time to AIDS that are both set are in order: the time to AIDS is at most the
  survival time.
\<close>

theorem survivalTime_ge_timeToAIDS:
  "Gillespie lib (transRateMatrix p) = Some g \<Longrightarrow> death_states_absorbing lib g \<Longrightarrow>
   waiting_times_from 0 lib g \<Longrightarrow>
   Patient_simulate lib (Patient_init i p) sim_length = Some (Inr patient) \<Longrightarrow>
   survivalTime (stateMonitor patient) = Some s \<Longrightarrow>
   timeToAIDS (stateMonitor patient) = Some a \<Longrightarrow> a \<le> s"
proof -
  assume g: "Gillespie lib (transRateMatrix p) = Some g"
    and abs: "death_states_absorbing lib g" and nonneg: "waiting_times_from 0 lib g"
    and run: "Patient_simulate lib (Patient_init i p) sim_length = Some (Inr patient)"
    and s: "survivalTime (stateMonitor patient) = Some s"
    and a: "timeToAIDS (stateMonitor patient) = Some a"
  from run g obtain rng m' where
    loop: "simulate_loop lib g sim_length 0 (PatientStateMonitor_init p) rng = Some (Inr m')"
    and m': "stateMonitor patient = m'"
    by (auto elim!: Patient_simulate_Inr simp: Patient_init_def)
  have init: "times_ordered 0 (PatientStateMonitor_init p)"
    by (simp add: times_ordered_def PatientStateMonitor_init_def)
  have "\<forall>m s a. (Inr m' :: error + PatientStateMonitor) = Inr m \<longrightarrow>
          survivalTime m = Some s \<longrightarrow> timeToAIDS m = Some a \<longrightarrow> a \<le> s"
    by (rule simulate_loop_invariant[where I = "\<lambda>t m rng. times_ordered t m"
          and Q = "\<lambda>y. \<forall>m s a. y = Inr m \<longrightarrow> survivalTime m = Some s \<longrightarrow>
                      timeToAIDS m = Some a \<longrightarrow> a \<le> s", OF loop init])
       (auto intro: times_ordered_step[OF abs nonneg] times_ordered_stop[OF abs])
  with s a m' show "a \<le> s" by simp
qed

lemma example_library_absorbing: "death_states_absorbing example_library example_matrix"
  unfolding death_states_absorbing_def
  by (auto simp: example_defs)

lemma example_library_waiting_times: "waiting_times_from 1 example_library example_matrix"
  unfolding waiting_times_from_def
  by (auto simp: example_defs split: if_splits)

lemma waiting_times_from_mono:
  "waiting_times_from eps lib g \<Longrightarrow> eps' \<le> eps \<Longrightarrow> waiting_times_from eps' lib g"
  unfolding waiting_times_from_def by fastforce

text \<open>
  The patient of id 0 under the example draws, horizon 10: AIDS at time 1, death from
  HIV at time 2.
\<close>

lemma example_patient_run:
  "\<exists>patient. Patient_simulate example_library (Patient_init 0 example_params) 10 =
      Some (Inr patient) \<and>
    currentState (stateMonitor patient) = HIV_DEATH \<and>
    survivalTime (stateMonitor patient) = Some 2 \<and>
    timeToAIDS (stateMonitor patient) = Some 1"
  by (simp add: Patient_simulate_def Patient_init_def simulate_loop.simps
      example_defs model_defs)

theorem survivalTime_ge_timeToAIDS_witness:
  "Gillespie example_library (transRateMatrix example_params) = Some example_matrix \<and>
   death_states_absorbing example_library example_matrix \<and>
   waiting_times_from 0 example_library example_matrix \<and>
   (\<exists>patient s a.
      Patient_simulate example_library (Patient_init 0 example_params) 10 = Some (Inr patient) \<and>
      survivalTime (stateMonitor patient) = Some s \<and>
      timeToAIDS (stateMonitor patient) = Some a \<and> s = 2 \<and> a = 1 \<and> a \<le> s)"
proof -
  have g: "Gillespie example_library (transRateMatrix example_params) = Some example_matrix"
    by (simp add: example_defs)
  have w: "waiting_times_from 0 example_library example_matrix"
    by (rule waiting_times_from_mono[OF example_library_waiting_times]) simp
  from example_patient_run obtain patient where
    run: "Patient_simulate example_library (Patient_init 0 example_params) 10 = Some (Inr patient)"
    and s: "survivalTime (stateMonitor patient) = Some 2"
    and a: "timeToAIDS (stateMonitor patient) = Some 1"
    by blast
  from survivalTime_ge_timeToAIDS[OF g example_library_absorbing w run s a]
  have "(1::real) \<le> 2" .
  with g example_library_absorbing w run s a show ?thesis by blast
qed

lemma PatientStateMonitor_update_Inl:
  assumes "PatientStateMonitor_update lib m time new_state = Inl e"
  shows "e = IndexError"
    and "length (annualStateCosts (cu_params (costUtilityMonitor m)))
           \<le> HealthStates_value (currentState m) \<or>
         length (annualStateUtilities (cu_params (costUtilityMonitor m)))
           \<le> HealthStates_value (currentState m)"
  using assms
  by (auto simp: PatientStateMonitor_update_def PatientCostUtilityMonitor_update_def Let_def
      split: if_splits sum.splits)

lemma HealthStates_of_Inl: "HealthStates_of j = Inl e \<Longrightarrow> e = ValueError"
  by (auto simp: HealthStates_of_def split: if_splits)

lemma alive_value: "s \<noteq> HIV_DEATH \<Longrightarrow> s \<noteq> NATUAL_DEATH \<Longrightarrow> HealthStates_value s < 3"
  by (cases s) simp_all

lemma simulate_step_no_IndexError:
  assumes abs: "death_states_absorbing lib g"
    and len: "length (annualStateCosts (cu_params (costUtilityMonitor m))) = 4"
      "length (annualStateUtilities (cu_params (costUtilityMonitor m))) = 4"
  shows "simulate_step lib g L t m rng \<noteq> Raised IndexError"
proof
  assume "simulate_step lib g L t m rng = Raised IndexError"
  then show False
  proof (cases rule: simulate_step_Raised)
    case library
    then show ?thesis by simp
  next
    case (horizon dt j rng')
    from death_states_absorbingD[OF abs horizon(1)]
    have "HealthStates_value (currentState m) < 3" by (rule alive_value)
    with PatientStateMonitor_update_Inl(2)[OF horizon(3)] len show ?thesis by simp
  next
    case (member dt j rng')
    from HealthStates_of_Inl[OF member(3)] show ?thesis by simp
  next
    case (update dt j rng' new_state)
    from death_states_absorbingD[OF abs update(1)]
    have "HealthStates_value (currentState m) < 3" by (rule alive_value)
    with PatientStateMonitor_update_Inl(2)[OF update(4)] len show ?thesis by simp
  qed
qed

text \<open>
  C10. Let the sampler treat the two death states as absorbing, and let the lists of
  annual state costs and utilities have length 4. Whenever the sampler returns a waiting
  time, which is the only case in which the loop of \<^verbatim>\<open>Patient.simulate\<close> updates the
  monitors, the current state is one of the three states of the living, of index below
  3. So no pass of the loop raises \<open>IndexError\<close>, from any time and any state monitor
  over these parameters, and neither does \<^verbatim>\<open>Patient.simulate\<close> of a new patient; while
  an update of the cost and utility monitor with the state \<open>NATUAL_DEATH\<close>, of index 4,
  would raise it.
\<close>

theorem update_index_in_bounds:
  "death_states_absorbing lib g \<Longrightarrow> Gillespie lib (transRateMatrix p) = Some g \<Longrightarrow>
   length (annualStateCosts p) = 4 \<Longrightarrow> length (annualStateUtilities p) = 4 \<Longrightarrow>
   (\<forall>(m :: PatientStateMonitor) rng dt j rng'.
      get_next_state lib g (HealthStates_value (currentState m)) rng = Some ((Some dt, j), rng')
      \<longrightarrow> currentState m \<in> {CD4_200to500, CD4_200, AIDS} \<and>
          HealthStates_value (currentState m) < length (annualStateCosts p) \<and>
          HealthStates_value (currentState m) < length (annualStateUtilities p)) \<and>
   (\<forall>t m rng. cu_params (costUtilityMonitor m) = p \<longrightarrow>
      simulate_step lib g sim_length t m rng \<noteq> Raised IndexError) \<and>
   Patient_simulate lib (Patient_init i p) sim_length \<noteq> Some (Inl IndexError) \<and>
   (\<forall>cu time. cu_params cu = p \<longrightarrow>
      PatientCostUtilityMonitor_update lib cu time NATUAL_DEATH = Inl IndexError)"
proof (intro conjI allI impI)
  assume abs: "death_states_absorbing lib g" and g: "Gillespie lib (transRateMatrix p) = Some g"
    and len: "length (annualStateCosts p) = 4" "length (annualStateUtilities p) = 4"
  {
    fix m :: PatientStateMonitor and rng dt j rng'
    assume s: "get_next_state lib g (HealthStates_value (currentState m)) rng
                 = Some ((Some dt, j), rng')"
    from death_states_absorbingD[OF abs s]
    show "currentState m \<in> {CD4_200to500, CD4_200, AIDS}"
      by (cases "currentState m") simp_all
    from alive_value[OF death_states_absorbingD[OF abs s]] len
    show "HealthStates_value (currentState m) < length (annualStateCosts p)"
      "HealthStates_value (currentState m) < length (annualStateUtilities p)"
      by simp_all
  }
  {
    fix t and m :: PatientStateMonitor and rng
    assume "cu_params (costUtilityMonitor m) = p"
    with len show "simulate_step lib g sim_length t m rng \<noteq> Raised IndexError"
      by (intro simulate_step_no_IndexError[OF abs]) simp_all
  } note step = this
  show "Patient_simulate lib (Patient_init i p) sim_length \<noteq> Some (Inl IndexError)"
  proof
    assume run: "Patient_simulate lib (Patient_init i p) sim_length = Some (Inl IndexError)"
    with g obtain rng where
      loop: "simulate_loop lib g sim_length 0 (PatientStateMonitor_init p) rng
               = Some (Inl IndexError)"
      by (auto simp: Patient_simulate_def Patient_init_def split: option.splits sum.splits)
    have init: "cu_params (costUtilityMonitor (PatientStateMonitor_init p)) = p"
      by (simp add: PatientStateMonitor_init_def PatientCostUtilityMonitor_init_def)
    have "(Inl IndexError :: error + PatientStateMonitor) \<noteq> Inl IndexError"
      by (rule simulate_loop_invariant[where I = "\<lambda>t m rng. cu_params (costUtilityMonitor m) = p"
            and Q = "\<lambda>y. y \<noteq> Inl IndexError", OF loop init])
         (use step in \<open>auto elim!: simulate_step_Running dest: PatientStateMonitor_update_params\<close>)
    then show False by simp
  qed
  {
    fix cu :: PatientCostUtilityMonitor and time
    assume "cu_params cu = p"
    with len show "PatientCostUtilityMonitor_update lib cu time NATUAL_DEATH = Inl IndexError"
      by (simp add: PatientCostUtilityMonitor_update_def)
  }
qed

theorem update_index_in_bounds_witness:
  "death_states_absorbing example_library example_matrix \<and>
   Gillespie example_library (transRateMatrix example_params) = Some example_matrix \<and>
   length (annualStateCosts example_params) = 4 \<and>
   length (annualStateUtilities example_params) = 4 \<and>
   get_next_state example_library example_matrix
     (HealthStates_value (currentState example_monitor)) 0 = Some ((Some 1, 2), 1) \<and>
   currentState example_monitor \<in> {CD4_200to500, CD4_200, AIDS} \<and>
   simulate_step example_library example_matrix 10 0 example_monitor 0 \<noteq> Raised IndexError \<and>
   Patient_simulate example_library (Patient_init 0 example_params) 10 \<noteq> Some (Inl IndexError) \<and>
   PatientCostUtilityMonitor_update example_library (costUtilityMonitor example_monitor) 1
     NATUAL_DEATH = Inl IndexError"
proof -
  have g: "Gillespie example_library (transRateMatrix example_params) = Some example_matrix"
    by (simp add: example_defs)
  have len: "length (annualStateCosts example_params) = 4"
    "length (annualStateUtilities example_params) = 4"
    by (simp_all add: example_params_def)
  have s: "get_next_state example_library example_matrix
     (HealthStates_value (currentState example_monitor)) 0 = Some ((Some 1, 2), 1)"
    by (simp add: example_defs)
  have p: "cu_params (costUtilityMonitor example_monitor) = example_params"
    by (simp add: example_monitor_def PatientStateMonitor_init_def
        PatientCostUtilityMonitor_init_def)
  note inst = update_index_in_bounds[OF example_library_absorbing g len, of 10 0]
  from inst s have a: "currentState example_monitor \<in> {CD4_200to500, CD4_200, AIDS}" by blast
  from inst p have b: "simulate_step example_library example_matrix 10 0 example_monitor 0
      \<noteq> Raised IndexError" by blast
  from inst have c: "Patient_simulate example_library (Patient_init 0 example_params) 10
      \<noteq> Some (Inl IndexError)" by blast
  from inst p have d: "PatientCostUtilityMonitor_update example_library
      (costUtilityMonitor example_monitor) 1 NATUAL_DEATH = Inl IndexError" by blast
  from example_library_absorbing g len s a b c d show ?thesis by blast
qed

subsection \<open>Outcomes of a patient in the cohort\<close>

lemma extract_outcome_fields:
  "survivalTimes (extract_outcome out patient) =
     (case survivalTime (stateMonitor patient) of
        None \<Rightarrow> survivalTimes out | Some x \<Rightarrow> survivalTimes out @ [x])"
  "timesToAIDS (extract_outcome out patient) =
     (case timeToAIDS (stateMonitor patient) of
        None \<Rightarrow> timesToAIDS out | Some x \<Rightarrow> timesToAIDS out @ [x])"
  "costs (extract_outcome out patient) =
     costs out @ [totalDiscountedCost (costUtilityMonitor (stateMonitor patient))]"
  "utilities (extract_outcome out patient) =
     utilities out @ [totalDiscountedUtility (costUtilityMonitor (stateMonitor patient))]"
  by (simp_all add: extract_outcome_def Let_def split: option.splits)

text \<open>
  A run in which no configuration at the head of the loop has the patient in AIDS or
  in a death state ends with neither time set.
\<close>

lemma censored_run:
  assumes loop: "simulate_loop lib g L t0 m0 rng0 = Some (Inr m')"
    and unset: "survivalTime m0 = None" "timeToAIDS m0 = None"
    and never: "\<forall>t m rng. reaches lib g L (t0, m0, rng0) (t, m, rng) \<longrightarrow>
                  currentState m \<notin> {AIDS, HIV_DEATH, NATUAL_DEATH}"
  shows "survivalTime m' = None \<and> timeToAIDS m' = None"
proof -
  let ?I = "\<lambda>t m rng. reaches lib g L (t0, m0, rng0) (t, m, rng) \<and>
              survivalTime m = None \<and> timeToAIDS m = None"
  let ?Q = "\<lambda>y :: error + PatientStateMonitor. \<forall>m. y = Inr m \<longrightarrow> survivalTime m = None \<and> timeToAIDS m = None"
  have init: "?I t0 m0 rng0" using unset by (simp add: reaches_start)
  have "?Q (Inr m')"
  proof (rule simulate_loop_invariant[where I = ?I and Q = ?Q, OF loop init])
    fix t m rng t' m' rng'
    assume inv: "?I t m rng" and step: "simulate_step lib g L t m rng = Running t' m' rng'"
    from inv step have r: "reaches lib g L (t0, m0, rng0) (t', m', rng')"
      by (blast intro: reaches_step)
    with never have ns: "currentState m' \<notin> {AIDS, HIV_DEATH, NATUAL_DEATH}" by blast
    from step obtain dt new_state where
      u: "PatientStateMonitor_update lib m (t + dt) new_state = Inr m'"
      by (rule simulate_step_Running)
    from ns inv show "?I t' m' rng'"
      using r PatientStateMonitor_update_fields[OF u] by auto
  next
    fix t m rng m'
    assume inv: "?I t m rng" and step: "simulate_step lib g L t m rng = Stopped m'"
    from inv never have ns: "currentState m \<notin> {AIDS, HIV_DEATH, NATUAL_DEATH}" by blast
    from step show "?Q (Inr m')"
    proof (cases rule: simulate_step_Stopped)
      case (sentinel j rng')
      with inv show ?thesis by simp
    next
      case (horizon dt j rng')
      from ns inv show ?thesis
        using PatientStateMonitor_update_fields[OF horizon(3)] by auto
    qed
  next
    fix t m rng e
    show "?Q (Inl e)" by simp
  qed
  then show ?thesis by simp
qed

text \<open>
  C5. \<^verbatim>\<open>extract_outcome\<close> appends exactly one entry to the costs and one to the utilities
  for every patient, the patient's two totals; it appends the survival time and the
  time to AIDS only when they are set, and nothing in their place when they are not.
  A new patient whose run never has it in AIDS or in a death state at the head of the
  loop ends with neither time set, so its outcomes add no entry to the survival times
  and none to the times to AIDS.
\<close>

theorem censored_patient_not_recorded:
  "costs (extract_outcome out patient) =
     costs out @ [totalDiscountedCost (costUtilityMonitor (stateMonitor patient))] \<and>
   utilities (extract_outcome out patient) =
     utilities out @ [totalDiscountedUtility (costUtilityMonitor (stateMonitor patient))] \<and>
   survivalTimes (extract_outcome out patient) =
     (case survivalTime (stateMonitor patient) of
        None \<Rightarrow> survivalTimes out | Some x \<Rightarrow> survivalTimes out @ [x]) \<and>
   timesToAIDS (extract_outcome out patient) =
     (case timeToAIDS (stateMonitor patient) of
        None \<Rightarrow> timesToAIDS out | Some x \<Rightarrow> timesToAIDS out @ [x]) \<and>
   (RandomState lib i = Some rng0 \<and> Gillespie lib (transRateMatrix p) = Some g \<and>
    Patient_simulate lib (Patient_init i p) sim_length = Some (Inr patient) \<and>
    (\<forall>t m rng. reaches lib g sim_length (0, PatientStateMonitor_init p, rng0) (t, m, rng) \<longrightarrow>
       currentState m \<notin> {AIDS, HIV_DEATH, NATUAL_DEATH})
    \<longrightarrow> survivalTime (stateMonitor patient) = None \<and>
        timeToAIDS (stateMonitor patient) = None \<and>
        survivalTimes (extract_outcome out patient) = survivalTimes out \<and>
        timesToAIDS (extract_outcome out patient) = timesToAIDS out \<and>
        length (costs (extract_outcome out patient)) = length (costs out) + 1 \<and>
        length (utilities (extract_outcome out patient)) = length (utilities out) + 1)"
proof (intro conjI impI)
  assume h: "RandomState lib i = Some rng0 \<and> Gillespie lib (transRateMatrix p) = Some g \<and>
    Patient_simulate lib (Patient_init i p) sim_length = Some (Inr patient) \<and>
    (\<forall>t m rng. reaches lib g sim_length (0, PatientStateMonitor_init p, rng0) (t, m, rng) \<longrightarrow>
       currentState m \<notin> {AIDS, HIV_DEATH, NATUAL_DEATH})"
  then obtain m' where
    loop: "simulate_loop lib g sim_length 0 (PatientStateMonitor_init p) rng0 = Some (Inr m')"
    and m': "stateMonitor patient = m'"
    by (auto elim!: Patient_simulate_Inr simp: Patient_init_def)
  from h have never: "\<forall>t m rng.
     reaches lib g sim_length (0, PatientStateMonitor_init p, rng0) (t, m, rng) \<longrightarrow>
       currentState m \<notin> {AIDS, HIV_DEATH, NATUAL_DEATH}" by blast
  have "survivalTime m' = None \<and> timeToAIDS m' = None"
    by (rule censored_run[OF loop _ _ never]) (simp_all add: PatientStateMonitor_init_def)
  with m' show "survivalTime (stateMonitor patient) = None"
    "timeToAIDS (stateMonitor patient) = None"
    "survivalTimes (extract_outcome out patient) = survivalTimes out"
    "timesToAIDS (extract_outcome out patient) = timesToAIDS out"
    by (simp_all add: extract_outcome_fields)
qed (simp_all add: extract_outcome_fields)

lemmas cyclic_defs = cyclic_library_def cyclic_matrix_def cyclic_params_def zeno_draws_def
  scripted_library_def example_params_def absorbing_row_def
  PatientStateMonitor_init_def PatientCostUtilityMonitor_init_def

text \<open>
  The patient of id 0 over the cyclic matrix, horizon 0.6: to the second state at time
  0.5, and the next event, at 0.75, is beyond the horizon.
\<close>

lemma cyclic_first_step:
  "simulate_step cyclic_library cyclic_matrix (6 / 10) 0 (PatientStateMonitor_init cyclic_params) 0
     = Running (1 / 2)
         \<lparr>currentState = CD4_200, survivalTime = None, timeToAIDS = None,
          costUtilityMonitor =
            \<lparr>tLastRecorded = 1 / 2, cu_params = cyclic_params,
             totalDiscountedCost = 2517, totalDiscountedUtility = 9 / 20\<rparr>\<rparr> 1"
  by (simp add: cyclic_defs model_defs)

lemma cyclic_second_step:
  "simulate_step cyclic_library cyclic_matrix (6 / 10) (1 / 2)
     \<lparr>currentState = CD4_200, survivalTime = None, timeToAIDS = None,
      costUtilityMonitor =
        \<lparr>tLastRecorded = 1 / 2, cu_params = cyclic_params,
         totalDiscountedCost = 2517, totalDiscountedUtility = 9 / 20\<rparr>\<rparr> 1
     = Stopped
         \<lparr>currentState = CD4_200, survivalTime = None, timeToAIDS = None,
          costUtilityMonitor =
            \<lparr>tLastRecorded = 6 / 10, cu_params = cyclic_params,
             totalDiscountedCost = 30473 / 10, totalDiscountedUtility = 107 / 200\<rparr>\<rparr>"
  by (simp add: cyclic_defs model_defs)

lemma cyclic_reaches:
  "reaches cyclic_library cyclic_matrix (6 / 10) (0, PatientStateMonitor_init cyclic_params, 0) c
   \<Longrightarrow> currentState (fst (snd c)) = CD4_200to500 \<or> currentState (fst (snd c)) = CD4_200"
proof -
  assume "reaches cyclic_library cyclic_matrix (6 / 10)
            (0, PatientStateMonitor_init cyclic_params, 0) c"
  then have "c = (0, PatientStateMonitor_init cyclic_params, 0) \<or>
     c = (1 / 2,
          \<lparr>currentState = CD4_200, survivalTime = None, timeToAIDS = None,
           costUtilityMonitor =
             \<lparr>tLastRecorded = 1 / 2, cu_params = cyclic_params,
              totalDiscountedCost = 2517, totalDiscountedUtility = 9 / 20\<rparr>\<rparr>, 1)"
  proof (induction rule: reaches.induct)
    case reaches_start
    then show ?case by simp
  next
    case (reaches_step t m rng t' m' rng')
    from reaches_step.IH show ?case
    proof
      assume "(t, m, rng) = (0, PatientStateMonitor_init cyclic_params, 0)"
      then have "t = 0" "m = PatientStateMonitor_init cyclic_params" "rng = 0" by simp_all
      with reaches_step.hyps(2)
      have "simulate_step cyclic_library cyclic_matrix (6 / 10) 0
              (PatientStateMonitor_init cyclic_params) 0 = Running t' m' rng'"
        by (simp only:)
      then show ?thesis by (auto simp only: cyclic_first_step step_result.inject prod.inject)
    next
      let ?m1 = "\<lparr>currentState = CD4_200, survivalTime = None, timeToAIDS = None,
           costUtilityMonitor =
             \<lparr>tLastRecorded = 1 / 2, cu_params = cyclic_params,
              totalDiscountedCost = 2517, totalDiscountedUtility = 9 / 20\<rparr>\<rparr>"
      assume "(t, m, rng) = (1 / 2, ?m1, 1)"
      then have "t = 1 / 2" "m = ?m1" "rng = 1" by (simp_all only: prod.inject)
      with reaches_step.hyps(2)
      have "simulate_step cyclic_library cyclic_matrix (6 / 10) (1 / 2) ?m1 1
              = Running t' m' rng'"
        by (simp only:)
      then show ?thesis by (simp only: cyclic_second_step step_result.distinct)
    qed
  qed
  then show ?thesis by (auto simp: PatientStateMonitor_init_def cyclic_params_def example_params_def)
qed

lemma cyclic_censored_run:
  "Patient_simulate cyclic_library (Patient_init 0 cyclic_params) (6 / 10) =
     Some (Inr \<lparr>pat_id = 0, pat_params = cyclic_params,
                stateMonitor =
                  \<lparr>currentState = CD4_200, survivalTime = None, timeToAIDS = None,
                   costUtilityMonitor =
                     \<lparr>tLastRecorded = 6 / 10, cu_params = cyclic_params,
                      totalDiscountedCost = 30473 / 10,
                      totalDiscountedUtility = 107 / 200\<rparr>\<rparr>\<rparr>)"
proof -
  have "simulate_loop cyclic_library cyclic_matrix (6 / 10) 0
          (PatientStateMonitor_init cyclic_params) 0
        = Some (Inr \<lparr>currentState = CD4_200, survivalTime = None, timeToAIDS = None,
                   costUtilityMonitor =
                     \<lparr>tLastRecorded = 6 / 10, cu_params = cyclic_params,
                      totalDiscountedCost = 30473 / 10,
                      totalDiscountedUtility = 107 / 200\<rparr>\<rparr>)"
    by (subst simulate_loop.simps, simp only: cyclic_first_step step_result.case,
        subst simulate_loop.simps, simp only: cyclic_second_step step_result.case)
  moreover have "RandomState cyclic_library 0 = Some 0"
    "Gillespie cyclic_library (transRateMatrix cyclic_params) = Some cyclic_matrix"
    by (simp_all add: cyclic_library_def scripted_library_def cyclic_matrix_def)
  ultimately show ?thesis
    by (simp add: Patient_simulate_def Patient_init_def)
qed

theorem censored_patient_not_recorded_witness:
  "RandomState cyclic_library 0 = Some 0 \<and>
   Gillespie cyclic_library (transRateMatrix cyclic_params) = Some cyclic_matrix \<and>
   (\<exists>patient.
      Patient_simulate cyclic_library (Patient_init 0 cyclic_params) (6 / 10)
        = Some (Inr patient) \<and>
      currentState (stateMonitor patient) = CD4_200 \<and>
      survivalTime (stateMonitor patient) = None \<and>
      timeToAIDS (stateMonitor patient) = None \<and>
      survivalTimes (extract_outcome (CohortOutcomes_init :: real list CohortOutcomes) patient) = [] \<and>
      timesToAIDS (extract_outcome (CohortOutcomes_init :: real list CohortOutcomes) patient) = [] \<and>
      costs (extract_outcome (CohortOutcomes_init :: real list CohortOutcomes) patient)
        = [30473 / 10] \<and>
      utilities (extract_outcome (CohortOutcomes_init :: real list CohortOutcomes) patient)
        = [107 / 200])"
proof -
  let ?out = "CohortOutcomes_init :: real list CohortOutcomes"
  have r: "RandomState cyclic_library 0 = Some 0"
    and g: "Gillespie cyclic_library (transRateMatrix cyclic_params) = Some cyclic_matrix"
    by (simp_all add: cyclic_library_def scripted_library_def cyclic_matrix_def)
  obtain patient where
    run: "Patient_simulate cyclic_library (Patient_init 0 cyclic_params) (6 / 10)
            = Some (Inr patient)"
    and st: "currentState (stateMonitor patient) = CD4_200"
    and tot: "totalDiscountedCost (costUtilityMonitor (stateMonitor patient)) = 30473 / 10"
      "totalDiscountedUtility (costUtilityMonitor (stateMonitor patient)) = 107 / 200"
    using cyclic_censored_run by simp
  have never: "\<forall>t m rng.
      reaches cyclic_library cyclic_matrix (6 / 10)
        (0, PatientStateMonitor_init cyclic_params, 0) (t, m, rng) \<longrightarrow>
      currentState m \<notin> {AIDS, HIV_DEATH, NATUAL_DEATH}"
    using cyclic_reaches by fastforce
  from censored_patient_not_recorded[of ?out patient cyclic_library 0 0 cyclic_params
      cyclic_matrix "6 / 10"] r g run never tot
  have "survivalTime (stateMonitor patient) = None \<and>
        timeToAIDS (stateMonitor patient) = None \<and>
        survivalTimes (extract_outcome ?out patient) = [] \<and>
        timesToAIDS (extract_outcome ?out patient) = [] \<and>
        costs (extract_outcome ?out patient) = [30473 / 10] \<and>
        utilities (extract_outcome ?out patient) = [107 / 200]"
    by (simp add: CohortOutcomes_init_def)
  with r g run st show ?thesis by blast
qed

subsection \<open>Termination of a patient's run\<close>

lemma zeno_draws_positive: "0 < fst (zeno_draws k)"
  by (simp add: zeno_draws_def)

text \<open>
  Over the cyclic matrix with the waiting times 1/2, 1/4, ... and horizon 1, the pass
  number \<open>k\<close> starts at time \<open>1 - 1 / 2 ^ k\<close> and goes on: the next event is at
  \<open>1 - 1 / 2 ^ (k + 1)\<close>, not beyond the horizon, and no state is absorbing.
\<close>

lemma zeno_step:
  assumes "t = 1 - 1 / 2 ^ k"
    and "currentState m = (if even k then CD4_200to500 else CD4_200)"
    and "cu_params (costUtilityMonitor m) = cyclic_params"
  shows "\<exists>t' m' rng'. simulate_step cyclic_library cyclic_matrix 1 t m k = Running t' m' rng' \<and>
           (rng' = Suc k \<and> t' = 1 - 1 / 2 ^ rng' \<and>
            currentState m' = (if even rng' then CD4_200to500 else CD4_200) \<and>
            cu_params (costUtilityMonitor m') = cyclic_params)"
proof -
  have half: "1 / (2 :: real) ^ k = 2 * (1 / 2 ^ Suc k)" by simp
  have pos: "0 < 1 / (2 :: real) ^ Suc k" by simp
  from assms(1) half have time: "1 / 2 ^ Suc k + t = 1 - 1 / 2 ^ Suc k" by linarith
  from time pos have le: "\<not> 1 / 2 ^ Suc k + t > 1" by linarith
  show ?thesis
  proof (cases "even k")
    case True
    then have "Suc k mod 2 = 1" by (simp add: mod_Suc)
    with True assms(2,3) le time show ?thesis
      by (simp add: simulate_step_def cyclic_library_def scripted_library_def cyclic_matrix_def
          cyclic_params_def example_params_def absorbing_row_def zeno_draws_def
          HealthStates_of_def PatientStateMonitor_update_def
          PatientCostUtilityMonitor_update_def add.commute del: power_Suc)
  next
    case False
    then have "Suc k mod 2 = 0" by (simp add: mod_Suc) presburger
    with False assms(2,3) le time show ?thesis
      by (simp add: simulate_step_def cyclic_library_def scripted_library_def cyclic_matrix_def
          cyclic_params_def example_params_def absorbing_row_def zeno_draws_def
          HealthStates_of_def PatientStateMonitor_update_def
          PatientCostUtilityMonitor_update_def add.commute del: power_Suc)
  qed
qed

text \<open>
  C8 as stated does not hold. For the patient of id 0 over the cyclic matrix the
  horizon is 1 and every waiting time is positive (\<open>zeno_draws_positive\<close>), and
  \<^verbatim>\<open>Patient.simulate\<close> never ends.
\<close>

theorem simulate_zeno_counterexample:
  "Patient_simulate cyclic_library (Patient_init 0 cyclic_params) 1 = None"
proof -
  let ?I = "\<lambda>(t :: real) m (k :: nat). t = 1 - 1 / 2 ^ k \<and>
              currentState m = (if even k then CD4_200to500 else CD4_200) \<and>
              cu_params (costUtilityMonitor m) = cyclic_params"
  have "simulate_loop cyclic_library cyclic_matrix 1 0 (PatientStateMonitor_init cyclic_params) 0
          = None"
  proof (rule simulate_loop_diverges[where I = ?I])
    show "?I 0 (PatientStateMonitor_init cyclic_params) 0"
      by (simp add: PatientStateMonitor_init_def PatientCostUtilityMonitor_init_def
          cyclic_params_def example_params_def)
  next
    fix t :: real and m :: PatientStateMonitor and k :: nat
    assume "?I t m k"
    then have "t = 1 - 1 / 2 ^ k"
      "currentState m = (if even k then CD4_200to500 else CD4_200)"
      "cu_params (costUtilityMonitor m) = cyclic_params" by blast+
    from zeno_step[OF this]
    show "\<exists>t' m' rng'. simulate_step cyclic_library cyclic_matrix 1 t m k = Running t' m' rng' \<and>
            ?I t' m' rng'"
      by blast
  qed
  then show ?thesis
    by (simp add: Patient_simulate_def Patient_init_def cyclic_library_def scripted_library_def
        cyclic_matrix_def)
qed

text \<open>The loop ends exactly when it ends within some number of passes.\<close>

lemma simulate_passes_loop:
  "simulate_passes n lib g L t m rng = Some y \<Longrightarrow> simulate_loop lib g L t m rng = Some y"
proof (induction n arbitrary: t m rng)
  case 0
  then show ?case by simp
next
  case (Suc n)
  show ?case
  proof (cases "simulate_step lib g L t m rng")
    case (Stopped m')
    with Suc.prems show ?thesis by (subst simulate_loop.simps) simp
  next
    case (Running t' m' rng')
    with Suc.prems have "simulate_passes n lib g L t' m' rng' = Some y" by simp
    from Suc.IH[OF this] Running show ?thesis by (subst simulate_loop.simps) simp
  next
    case (Raised e)
    with Suc.prems show ?thesis by (subst simulate_loop.simps) simp
  qed
qed

lemma simulate_loop_passes:
  assumes run: "simulate_loop lib g L t m rng = Some y"
  shows "\<exists>n. simulate_passes n lib g L t m rng = Some y"
proof -
  define P where "P = (\<lambda>(lib' :: ('a, 'b, 'c) library) g' L' t m rng y.
     \<exists>n. simulate_passes n lib' g' L' t m rng = Some y)"
  have "P lib g L t m rng y"
  proof (rule simulate_loop.raw_induct[where P = P, OF _ run])
    fix loop and lib' :: "('a, 'b, 'c) library" and g' L' t m rng y
    assume IH: "\<And>lib g L t m rng y. loop lib g L t m rng = Some y \<Longrightarrow> P lib g L t m rng y"
      and body: "(case simulate_step lib' g' L' t m rng of
                    Stopped m' \<Rightarrow> Some (Inr m')
                  | Running t' m' rng' \<Rightarrow> loop lib' g' L' t' m' rng'
                  | Raised e \<Rightarrow> Some (Inl e)) = Some y"
    show "P lib' g' L' t m rng y"
    proof (cases "simulate_step lib' g' L' t m rng")
      case (Stopped m')
      with body have "simulate_passes (Suc 0) lib' g' L' t m rng = Some y" by simp
      then show ?thesis unfolding P_def by blast
    next
      case (Running t' m' rng')
      with body have "loop lib' g' L' t' m' rng' = Some y" by simp
      from IH[OF this] obtain n where "simulate_passes n lib' g' L' t' m' rng' = Some y"
        unfolding P_def by blast
      with Running have "simulate_passes (Suc n) lib' g' L' t m rng = Some y" by simp
      then show ?thesis unfolding P_def by blast
    next
      case (Raised e)
      with body have "simulate_passes (Suc 0) lib' g' L' t m rng = Some y" by simp
      then show ?thesis unfolding P_def by blast
    qed
  qed
  then show ?thesis by (simp add: P_def)
qed

lemma HealthStates_of_Inr: "HealthStates_of j = Inr s \<Longrightarrow> HealthStates_value s = j"
  by (auto simp: HealthStates_of_def split: if_splits)

lemma HealthStates_value_le: "HealthStates_value s \<le> 4"
  by (cases s) simp_all

text \<open>
  Under a sampler that only moves to states of higher index every pass that goes on
  raises the index of the current state, which is at most 4: from a state of index
  \<open>v\<close> the loop ends within \<open>5 - v\<close> passes. The times play no part.
\<close>

lemma simulate_passes_progress:
  assumes prog: "sampler_progresses lib g"
  shows "5 - HealthStates_value (currentState m) \<le> n \<Longrightarrow>
           \<exists>y. simulate_passes n lib g L t m rng = Some y"
proof (induction n arbitrary: t m rng)
  case 0
  with HealthStates_value_le[of "currentState m"] show ?case by simp
next
  case (Suc n)
  show ?case
  proof (cases "simulate_step lib g L t m rng")
    case (Running t' m' rng')
    then obtain dt j new_state where
      s: "get_next_state lib g (HealthStates_value (currentState m)) rng
            = Some ((Some dt, j), rng')"
      and j: "HealthStates_of j = Inr new_state"
      and u: "PatientStateMonitor_update lib m (t + dt) new_state = Inr m'"
      by (rule simulate_step_Running)
    from prog s have "HealthStates_value (currentState m) < j"
      unfolding sampler_progresses_def by blast
    moreover from PatientStateMonitor_update_fields(1)[OF u] HealthStates_of_Inr[OF j]
    have "HealthStates_value (currentState m') = j" by simp
    ultimately have "5 - HealthStates_value (currentState m') \<le> n"
      using Suc.prems by simp
    from Suc.IH[OF this] Running show ?thesis by simp
  qed simp_all
qed

text \<open>
  C8, as amended. \<^verbatim>\<open>Patient.simulate\<close> ends exactly when its loop ends within some
  number of passes, that is when some pass meets the sentinel of an absorbing state,
  finds \<open>dt + t\<close> beyond the horizon, or raises. If the sampler only moves to states of
  higher index, this happens within 5 passes, the number of health states, for every
  horizon and whatever the waiting times are: each pass ends the loop or raises the
  index of the current state. The proof uses nothing of the times or of their
  addition.
\<close>

theorem simulate_ends_by_absorption:
  "(simulate_loop lib g sim_length t m rng = Some y \<longleftrightarrow>
      (\<exists>n. simulate_passes n lib g sim_length t m rng = Some y)) \<and>
   (sampler_progresses lib g \<longrightarrow>
      (\<exists>y'. simulate_passes 5 lib g sim_length t m rng = Some y' \<and>
            simulate_loop lib g sim_length t m rng = Some y')) \<and>
   ((\<forall>g. Gillespie lib (transRateMatrix (pat_params p)) = Some g \<longrightarrow>
         sampler_progresses lib g) \<longrightarrow>
      (\<exists>y'. Patient_simulate lib p sim_length = Some y'))"
proof (intro conjI impI)
  show "simulate_loop lib g sim_length t m rng = Some y \<longleftrightarrow>
      (\<exists>n. simulate_passes n lib g sim_length t m rng = Some y)"
  proof
    assume "simulate_loop lib g sim_length t m rng = Some y"
    then show "\<exists>n. simulate_passes n lib g sim_length t m rng = Some y"
      by (rule simulate_loop_passes)
  next
    assume "\<exists>n. simulate_passes n lib g sim_length t m rng = Some y"
    then obtain n where "simulate_passes n lib g sim_length t m rng = Some y" ..
    then show "simulate_loop lib g sim_length t m rng = Some y"
      by (rule simulate_passes_loop)
  qed
next
  assume prog: "sampler_progresses lib g"
  have "5 - HealthStates_value (currentState m) \<le> 5" by simp
  from simulate_passes_progress[OF prog this]
  obtain y' where "simulate_passes 5 lib g sim_length t m rng = Some y'" by blast
  with simulate_passes_loop[OF this]
  show "\<exists>y'. simulate_passes 5 lib g sim_length t m rng = Some y' \<and>
            simulate_loop lib g sim_length t m rng = Some y'"
    by blast
next
  assume w: "\<forall>g. Gillespie lib (transRateMatrix (pat_params p)) = Some g \<longrightarrow>
         sampler_progresses lib g"
  show "\<exists>y'. Patient_simulate lib p sim_length = Some y'"
  proof (cases "RandomState lib (pat_id p)")
    case None
    then show ?thesis by (simp add: Patient_simulate_def)
  next
    case (Some rng0)
    show ?thesis
    proof (cases "Gillespie lib (transRateMatrix (pat_params p))")
      case None
      with Some show ?thesis by (simp add: Patient_simulate_def)
    next
      case g: (Some g0)
      with w have prog: "sampler_progresses lib g0" by blast
      have "5 - HealthStates_value (currentState (stateMonitor p)) \<le> 5" by simp
      from simulate_passes_progress[OF prog this]
      obtain y' where "simulate_passes 5 lib g0 sim_length 0 (stateMonitor p) rng0 = Some y'"
        by blast
      from simulate_passes_loop[OF this] Some g show ?thesis
        by (cases y') (simp_all add: Patient_simulate_def)
    qed
  qed
qed

text \<open>
  The waiting times 1/2, 1/4, 1/8, ... again, with horizon 1, but over the rate
  matrix of the example parameters: the patient of id 0 moves up one state at each of
  the times 1/2, 3/4 and 7/8, is then dead, and the fourth pass ends the loop.
\<close>

lemma stepwise_progresses:
  "sampler_progresses (stepwise_library waits) matrix"
  unfolding sampler_progresses_def
  by (auto simp: stepwise_library_def split: if_splits)

theorem simulate_ends_by_absorption_witness:
  "sampler_progresses (stepwise_library zeno_waits) example_matrix \<and>
   (\<exists>m'. simulate_passes 4 (stepwise_library zeno_waits) example_matrix 1 0 example_monitor 0
           = Some (Inr m') \<and>
         simulate_passes 5 (stepwise_library zeno_waits) example_matrix 1 0 example_monitor 0
           = Some (Inr m') \<and>
         simulate_loop (stepwise_library zeno_waits) example_matrix 1 0 example_monitor 0
           = Some (Inr m') \<and>
         currentState m' = HIV_DEATH \<and> timeToAIDS m' = Some (3 / 4) \<and>
         survivalTime m' = Some (7 / 8)) \<and>
   (\<exists>y'. Patient_simulate (stepwise_library zeno_waits) (Patient_init 0 example_params) 1
           = Some y')"
proof -
  let ?lib = "stepwise_library zeno_waits"
  have prog: "sampler_progresses ?lib g" for g by (rule stepwise_progresses)
  obtain m' where
    four: "simulate_passes 4 ?lib example_matrix 1 0 example_monitor 0 = Some (Inr m')"
    and m': "currentState m' = HIV_DEATH" "timeToAIDS m' = Some (3 / 4)"
      "survivalTime m' = Some (7 / 8)"
    by (simp add: eval_nat_numeral stepwise_library_def zeno_waits_def example_matrix_def
        example_monitor_def example_params_def absorbing_row_def PatientStateMonitor_init_def
        PatientCostUtilityMonitor_init_def model_defs)
  note inst = simulate_ends_by_absorption[of ?lib example_matrix 1 0 example_monitor 0
      "Inr m'" "Patient_init 0 example_params"]
  from inst four have loop:
    "simulate_loop ?lib example_matrix 1 0 example_monitor 0 = Some (Inr m')"
    by blast
  from inst prog obtain y' where
    "simulate_passes 5 ?lib example_matrix 1 0 example_monitor 0 = Some y'"
    "simulate_loop ?lib example_matrix 1 0 example_monitor 0 = Some y'"
    by blast
  with loop have five:
    "simulate_passes 5 ?lib example_matrix 1 0 example_monitor 0 = Some (Inr m')"
    by simp
  from inst prog
  have pat: "\<exists>y'. Patient_simulate ?lib (Patient_init 0 example_params) 1 = Some y'"
    by blast
  from prog[of example_matrix] four five loop m' pat show ?thesis by blast
qed

subsection \<open>The cohort\<close>

text \<open>Two instances of the libraries whose passes agree run the same loop.\<close>

lemma simulate_loop_Some_cong:
  assumes step: "\<And>t m rng. simulate_step lib1 g L t m rng = simulate_step lib2 g L t m rng"
    and run: "simulate_loop lib1 g L t m rng = Some y"
  shows "simulate_loop lib2 g L t m rng = Some y"
proof -
  define P where "P = (\<lambda>lib' g' L' t m rng y.
     lib' = lib1 \<longrightarrow> g' = g \<longrightarrow> L' = L \<longrightarrow> simulate_loop lib2 g L t m rng = Some y)"
  have "P lib1 g L t m rng y"
  proof (rule simulate_loop.raw_induct[where P = P, OF _ run])
    fix loop lib' g' L' t m rng y
    assume IH: "\<And>lib g L t m rng y. loop lib g L t m rng = Some y \<Longrightarrow> P lib g L t m rng y"
      and body: "(case simulate_step lib' g' L' t m rng of
                    Stopped m' \<Rightarrow> Some (Inr m')
                  | Running t' m' rng' \<Rightarrow> loop lib' g' L' t' m' rng'
                  | Raised e \<Rightarrow> Some (Inl e)) = Some y"
    show "P lib' g' L' t m rng y"
      unfolding P_def
    proof (intro impI)
      assume eq: "lib' = lib1" "g' = g" "L' = L"
      show "simulate_loop lib2 g L t m rng = Some y"
      proof (cases "simulate_step lib1 g L t m rng")
        case (Stopped m')
        with body eq have y: "y = Inr m'" by simp
        from Stopped step[of t m rng] have "simulate_step lib2 g L t m rng = Stopped m'"
          by simp
        with y show ?thesis by (subst simulate_loop.simps) simp
      next
        case (Running t' m' rng')
        with body eq have "loop lib1 g L t' m' rng' = Some y" by simp
        from IH[OF this] have y: "simulate_loop lib2 g L t' m' rng' = Some y"
          by (simp add: P_def)
        from Running step[of t m rng]
        have "simulate_step lib2 g L t m rng = Running t' m' rng'" by simp
        with y show ?thesis by (subst simulate_loop.simps) simp
      next
        case (Raised e)
        with body eq have y: "y = Inl e" by simp
        from Raised step[of t m rng] have "simulate_step lib2 g L t m rng = Raised e"
          by simp
        with y show ?thesis by (subst simulate_loop.simps) simp
      qed
    qed
  qed
  then show ?thesis by (simp add: P_def)
qed

lemma simulate_loop_cong:
  assumes step: "\<And>t m rng. simulate_step lib1 g L t m rng = simulate_step lib2 g L t m rng"
  shows "simulate_loop lib1 g L t m rng = simulate_loop lib2 g L t m rng"
proof (cases "simulate_loop lib1 g L t m rng")
  case (Some y)
  from simulate_loop_Some_cong[of lib1 g L lib2, OF step Some] Some show ?thesis by simp
next
  case None
  show ?thesis
  proof (cases "simulate_loop lib2 g L t m rng")
    case (Some y)
    from simulate_loop_Some_cong[of lib2 g L lib1, OF step[symmetric] Some] None
    show ?thesis by simp
  next
    case n2: None
    with None show ?thesis by simp
  qed
qed

lemma PatientStateMonitor_update_RandomState:
  "PatientStateMonitor_update (lib\<lparr>RandomState := rs\<rparr>) m time s =
     PatientStateMonitor_update lib m time s"
  by (simp add: PatientStateMonitor_update_def PatientCostUtilityMonitor_update_def Let_def)

lemma simulate_step_RandomState:
  "simulate_step (lib\<lparr>RandomState := rs\<rparr>) g L t m rng = simulate_step lib g L t m rng"
  by (auto simp: simulate_step_def PatientStateMonitor_update_RandomState
      split: option.splits sum.splits)

text \<open>
  \<^verbatim>\<open>Patient.simulate\<close> reads the random source at one seed, the patient's id.
\<close>

lemma Patient_simulate_seed:
  assumes "rs (pat_id p) = RandomState lib (pat_id p)"
  shows "Patient_simulate (lib\<lparr>RandomState := rs\<rparr>) p L = Patient_simulate lib p L"
proof -
  have "simulate_loop (lib\<lparr>RandomState := rs\<rparr>) g L t m rng = simulate_loop lib g L t m rng"
    for g t m rng
    by (rule simulate_loop_cong) (rule simulate_step_RandomState)
  with assms show ?thesis by (simp add: Patient_simulate_def split: option.splits)
qed

lemma simulate_patients_seed:
  assumes "\<forall>k\<in>set ks. rs (coh_id c * popSize c + int k) =
             RandomState lib (coh_id c * popSize c + int k)"
  shows "simulate_patients (lib\<lparr>RandomState := rs\<rparr>) c L ks out = simulate_patients lib c L ks out"
  using assms
proof (induction ks arbitrary: out)
  case Nil
  then show ?case by simp
next
  case (Cons k ks)
  then have "rs (pat_id (Patient_init (coh_id c * popSize c + int k) (coh_params c))) =
      RandomState lib (pat_id (Patient_init (coh_id c * popSize c + int k) (coh_params c)))"
    by (simp add: Patient_init_def)
  then have "Patient_simulate (lib\<lparr>RandomState := rs\<rparr>)
      (Patient_init (coh_id c * popSize c + int k) (coh_params c)) L =
    Patient_simulate lib (Patient_init (coh_id c * popSize c + int k) (coh_params c)) L"
    by (rule Patient_simulate_seed)
  with Cons show ?case
    by (simp split: option.splits sum.splits)
qed

lemma calculate_cohort_outcomes_RandomState:
  "calculate_cohort_outcomes (lib\<lparr>RandomState := rs\<rparr>) out n = calculate_cohort_outcomes lib out n"
  by (simp add: calculate_cohort_outcomes_def split: option.splits)

text \<open>
  The loop of \<^verbatim>\<open>Cohort.simulate\<close> over the indices \<open>ks\<close>: when it ends without an
  exception, the patient of each index \<open>k\<close> has been simulated from a new patient of id
  \<open>id * popSize + k\<close>, and the outcomes are those of the patients, extracted in the order
  of the indices.
\<close>

lemma simulate_patients_fold:
  "simulate_patients lib c L ks out = Some (Inr out') \<Longrightarrow>
     \<exists>ps. length ps = length ks \<and>
       (\<forall>k < length ks.
          Patient_simulate lib
            (Patient_init (coh_id c * popSize c + int (ks ! k)) (coh_params c)) L
          = Some (Inr (ps ! k))) \<and>
       out' = fold (\<lambda>q out. extract_outcome out q) ps out"
proof (induction ks arbitrary: out)
  case Nil
  then show ?case by simp
next
  case (Cons i ks)
  from Cons.prems obtain q where
    q: "Patient_simulate lib (Patient_init (coh_id c * popSize c + int i) (coh_params c)) L
          = Some (Inr q)"
    and rest: "simulate_patients lib c L ks (extract_outcome out q) = Some (Inr out')"
    by (auto split: option.splits sum.splits)
  from Cons.IH[OF rest] obtain ps where
    ps: "length ps = length ks"
      "\<forall>k < length ks.
          Patient_simulate lib
            (Patient_init (coh_id c * popSize c + int (ks ! k)) (coh_params c)) L
          = Some (Inr (ps ! k))"
      "out' = fold (\<lambda>q out. extract_outcome out q) ps (extract_outcome out q)"
    by blast
  have "\<forall>k < length (i # ks).
          Patient_simulate lib
            (Patient_init (coh_id c * popSize c + int ((i # ks) ! k)) (coh_params c)) L
          = Some (Inr ((q # ps) ! k))"
  proof (intro allI impI)
    fix k assume "k < length (i # ks)"
    with q ps(2) show "Patient_simulate lib
            (Patient_init (coh_id c * popSize c + int ((i # ks) ! k)) (coh_params c)) L
          = Some (Inr ((q # ps) ! k))"
      by (cases k) simp_all
  qed
  with ps(1,3) show ?case
    by (intro exI[of _ "q # ps"]) simp
qed

text \<open>\<^verbatim>\<open>Patient.simulate\<close> keeps the id of the patient.\<close>

lemma Patient_simulate_id:
  "Patient_simulate lib p L = Some (Inr p') \<Longrightarrow> pat_id p' = pat_id p"
  by (auto simp: Patient_simulate_def split: option.splits sum.splits)

text \<open>
  C7. Two cohorts constructed with the same id, population size and parameters and
  simulated with the same \<open>sim_length\<close> have the same result: the same outcome
  collections, the same exception, or both do not end. When the simulation returns,
  its four collections are those that \<^verbatim>\<open>extract_outcome\<close> builds, from the empty
  collections and in the order of the indices \<open>k = 0, ..., pop_size - 1\<close>, from the patients
  that \<^verbatim>\<open>Patient.simulate\<close> returns for a new patient of id \<open>id * pop_size + k\<close>. The random
  stream of a patient is the one seeded with its id: \<^verbatim>\<open>Patient.simulate\<close> of a new patient
  of id \<open>i\<close> is the loop run from time 0 on the stream \<open>RandomState i\<close>. So the result is
  the same under any other random source \<open>rs\<close> that gives the same streams for the
  seeds \<open>id * pop_size + k\<close>.
\<close>

theorem Cohort_simulate_deterministic:
  "Cohort_init cid n p = Inr c1 \<Longrightarrow> Cohort_init cid n p = Inr c2 \<Longrightarrow>
   Cohort_simulate lib c1 sim_length = Cohort_simulate lib c2 sim_length \<and>
   cohortOutcomes c1 = CohortOutcomes_init \<and>
   (\<forall>c'. Cohort_simulate lib c1 sim_length = Some (Inr c') \<longrightarrow>
      (\<exists>ps. length ps = nat n \<and>
         (\<forall>k < nat n.
            Patient_simulate lib (Patient_init (cid * n + int k) p) sim_length
              = Some (Inr (ps ! k)) \<and>
            pat_id (ps ! k) = cid * n + int k) \<and>
         survivalTimes (cohortOutcomes c') =
           survivalTimes (fold (\<lambda>q out. extract_outcome out q) ps (cohortOutcomes c1)) \<and>
         timesToAIDS (cohortOutcomes c') =
           timesToAIDS (fold (\<lambda>q out. extract_outcome out q) ps (cohortOutcomes c1)) \<and>
         costs (cohortOutcomes c') =
           costs (fold (\<lambda>q out. extract_outcome out q) ps (cohortOutcomes c1)) \<and>
         utilities (cohortOutcomes c') =
           utilities (fold (\<lambda>q out. extract_outcome out q) ps (cohortOutcomes c1)))) \<and>
   Patient_simulate lib (Patient_init i p) sim_length =
     (case RandomState lib i of
        None \<Rightarrow> Some (Inl LibraryError)
      | Some rng \<Rightarrow>
          (case Gillespie lib (transRateMatrix p) of
             None \<Rightarrow> Some (Inl LibraryError)
           | Some g \<Rightarrow>
               (case simulate_loop lib g sim_length 0 (PatientStateMonitor_init p) rng of
                  None \<Rightarrow> None
                | Some (Inl e) \<Rightarrow> Some (Inl e)
                | Some (Inr m') \<Rightarrow>
                    Some (Inr \<lparr>pat_id = i, pat_params = p, stateMonitor = m'\<rparr>)))) \<and>
   ((\<forall>k. 0 \<le> k \<and> k < n \<longrightarrow> rs (cid * n + k) = RandomState lib (cid * n + k)) \<longrightarrow>
      Cohort_simulate (lib\<lparr>RandomState := rs\<rparr>) c2 sim_length =
      Cohort_simulate lib c1 sim_length)"
proof (intro conjI impI allI)
  assume c1: "Cohort_init cid n p = Inr c1" and c2: "Cohort_init cid n p = Inr c2"
  then have eq: "c2 = c1" by simp
  then show "Cohort_simulate lib c1 sim_length = Cohort_simulate lib c2 sim_length" by simp
  from c1 have c: "coh_id c1 = cid" "popSize c1 = n" "coh_params c1 = p"
    and fresh: "cohortOutcomes c1 = CohortOutcomes_init"
    by (auto simp: Cohort_init_def)
  show "cohortOutcomes c1 = CohortOutcomes_init" by (rule fresh)
  show "Patient_simulate lib (Patient_init i p) sim_length =
     (case RandomState lib i of
        None \<Rightarrow> Some (Inl LibraryError)
      | Some rng \<Rightarrow>
          (case Gillespie lib (transRateMatrix p) of
             None \<Rightarrow> Some (Inl LibraryError)
           | Some g \<Rightarrow>
               (case simulate_loop lib g sim_length 0 (PatientStateMonitor_init p) rng of
                  None \<Rightarrow> None
                | Some (Inl e) \<Rightarrow> Some (Inl e)
                | Some (Inr m') \<Rightarrow>
                    Some (Inr \<lparr>pat_id = i, pat_params = p, stateMonitor = m'\<rparr>))))"
    by (simp add: Patient_simulate_def Patient_init_def split: option.splits sum.splits)
  {
    fix c'
    assume run: "Cohort_simulate lib c1 sim_length = Some (Inr c')"
    with c obtain out out' where
      pats: "simulate_patients lib c1 sim_length [0..<nat n] (cohortOutcomes c1) = Some (Inr out)"
      and calc: "calculate_cohort_outcomes lib out n = Inr out'"
      and c': "cohortOutcomes c' = out'"
      by (auto simp: Cohort_simulate_def split: option.splits sum.splits)
    from simulate_patients_fold[OF pats] c obtain ps where
      ps: "length ps = nat n"
        "\<forall>k < nat n. Patient_simulate lib (Patient_init (cid * n + int k) p) sim_length
           = Some (Inr (ps ! k))"
        "out = fold (\<lambda>q out. extract_outcome out q) ps (cohortOutcomes c1)"
      by auto
    have ids: "\<forall>k < nat n. pat_id (ps ! k) = cid * n + int k"
    proof (intro allI impI)
      fix k assume "k < nat n"
      with ps(2) have "Patient_simulate lib (Patient_init (cid * n + int k) p) sim_length
           = Some (Inr (ps ! k))" by blast
      from Patient_simulate_id[OF this] show "pat_id (ps ! k) = cid * n + int k"
        by (simp add: Patient_init_def)
    qed
    from calc have "survivalTimes out' = survivalTimes out" "timesToAIDS out' = timesToAIDS out"
      "costs out' = costs out" "utilities out' = utilities out"
      by (auto simp: calculate_cohort_outcomes_def split: option.splits)
    with ps ids c'
    show "\<exists>ps. length ps = nat n \<and>
         (\<forall>k < nat n.
            Patient_simulate lib (Patient_init (cid * n + int k) p) sim_length
              = Some (Inr (ps ! k)) \<and>
            pat_id (ps ! k) = cid * n + int k) \<and>
         survivalTimes (cohortOutcomes c') =
           survivalTimes (fold (\<lambda>q out. extract_outcome out q) ps (cohortOutcomes c1)) \<and>
         timesToAIDS (cohortOutcomes c') =
           timesToAIDS (fold (\<lambda>q out. extract_outcome out q) ps (cohortOutcomes c1)) \<and>
         costs (cohortOutcomes c') =
           costs (fold (\<lambda>q out. extract_outcome out q) ps (cohortOutcomes c1)) \<and>
         utilities (cohortOutcomes c') =
           utilities (fold (\<lambda>q out. extract_outcome out q) ps (cohortOutcomes c1))"
      by (intro exI[of _ ps]) simp
  }
  {
    assume seeds: "\<forall>k. 0 \<le> k \<and> k < n \<longrightarrow> rs (cid * n + k) = RandomState lib (cid * n + k)"
    have "\<forall>k\<in>set [0..<nat n]. rs (coh_id c1 * popSize c1 + int k) =
             RandomState lib (coh_id c1 * popSize c1 + int k)"
    proof
      fix k assume "k \<in> set [0..<nat n]"
      then have "0 \<le> int k \<and> int k < n" by auto
      with seeds c show "rs (coh_id c1 * popSize c1 + int k) =
             RandomState lib (coh_id c1 * popSize c1 + int k)" by simp
    qed
    from simulate_patients_seed[OF this] c eq
    show "Cohort_simulate (lib\<lparr>RandomState := rs\<rparr>) c2 sim_length =
          Cohort_simulate lib c1 sim_length"
      by (simp add: Cohort_simulate_def calculate_cohort_outcomes_RandomState
          split: option.splits sum.splits)
  }
qed

text \<open>
  The cohort of id 0 and two patients under the example draws, horizon 10. The patient
  of id 0 has AIDS at time 1 and dies at time 2; the patient of id 1 dies at time 1.
\<close>

lemma example_patient_0:
  "Patient_simulate example_library (Patient_init 0 example_params) 10 =
     Some (Inr \<lparr>pat_id = 0, pat_params = example_params,
                stateMonitor =
                  \<lparr>currentState = HIV_DEATH, survivalTime = Some 2, timeToAIDS = Some 1,
                   costUtilityMonitor =
                     \<lparr>tLastRecorded = 2, cu_params = example_params,
                      totalDiscountedCost = 16319, totalDiscountedUtility = 165 / 100\<rparr>\<rparr>\<rparr>)"
  by (simp add: Patient_simulate_def Patient_init_def simulate_loop.simps
      example_defs model_defs)

lemma example_patient_1:
  "Patient_simulate example_library (Patient_init 1 example_params) 10 =
     Some (Inr \<lparr>pat_id = 1, pat_params = example_params,
                stateMonitor =
                  \<lparr>currentState = HIV_DEATH, survivalTime = Some 1, timeToAIDS = None,
                   costUtilityMonitor =
                     \<lparr>tLastRecorded = 1, cu_params = example_params,
                      totalDiscountedCost = 5034, totalDiscountedUtility = 9 / 10\<rparr>\<rparr>\<rparr>)"
  by (simp add: Patient_simulate_def Patient_init_def simulate_loop.simps
      example_defs model_defs)

lemma example_cohort_run:
  "Cohort_simulate example_library
     \<lparr>coh_id = 0, popSize = 2, coh_params = example_params,
      cohortOutcomes = CohortOutcomes_init\<rparr> 10 =
   Some (Inr \<lparr>coh_id = 0, popSize = 2, coh_params = example_params,
              cohortOutcomes =
                \<lparr>survivalTimes = [2, 1], timesToAIDS = [1], costs = [16319, 5034],
                 utilities = [165 / 100, 9 / 10],
                 nLivingPatients = Some [(0, 2), (1, 1), (2, 0)],
                 statSurvivalTime = Some [2, 1], statTimeToAIDS = Some [1],
                 statCost = Some [16319, 5034],
                 statUtility = Some [165 / 100, 9 / 10]\<rparr>\<rparr>)"
proof -
  have range: "[0..<2 :: nat] = [0, 1]" by (simp add: upt_rec)
  have stat: "SummaryStat example_library name data = Some data" for name data
    by (simp add: example_library_def scripted_library_def)
  show ?thesis
    by (simp add: Cohort_simulate_def range example_patient_0 example_patient_1
        extract_outcome_def CohortOutcomes_init_def calculate_cohort_outcomes_def stat
        PrevalencePathBatchUpdate_def)
qed

theorem Cohort_simulate_deterministic_witness:
  "(Cohort_init 0 2 example_params :: error + real list Cohort) =
     Inr \<lparr>coh_id = 0, popSize = 2, coh_params = example_params,
          cohortOutcomes = CohortOutcomes_init\<rparr> \<and>
   (\<exists>c' ps.
      Cohort_simulate example_library
        \<lparr>coh_id = 0, popSize = 2, coh_params = example_params,
         cohortOutcomes = CohortOutcomes_init\<rparr> 10 = Some (Inr c') \<and>
      length ps = 2 \<and>
      Patient_simulate example_library (Patient_init 0 example_params) 10
        = Some (Inr (ps ! 0)) \<and>
      Patient_simulate example_library (Patient_init 1 example_params) 10
        = Some (Inr (ps ! 1)) \<and>
      pat_id (ps ! 0) = 0 \<and> pat_id (ps ! 1) = 1 \<and>
      survivalTime (stateMonitor (ps ! 0)) = Some 2 \<and>
      survivalTime (stateMonitor (ps ! 1)) = Some 1 \<and>
      survivalTimes (cohortOutcomes c') =
        survivalTimes (fold (\<lambda>q out. extract_outcome out q) ps
          (CohortOutcomes_init :: real list CohortOutcomes)) \<and>
      survivalTimes (cohortOutcomes c') = [2, 1] \<and>
      timesToAIDS (cohortOutcomes c') = [1] \<and>
      costs (cohortOutcomes c') = [16319, 5034] \<and>
      utilities (cohortOutcomes c') = [165 / 100, 9 / 10]) \<and>
   (\<lambda>seed. if seed < 2 then RandomState example_library seed else None) 5
     \<noteq> RandomState example_library 5 \<and>
   Cohort_simulate
     (example_library\<lparr>RandomState :=
        \<lambda>seed. if seed < 2 then RandomState example_library seed else None\<rparr>)
     \<lparr>coh_id = 0, popSize = 2, coh_params = example_params,
      cohortOutcomes = CohortOutcomes_init\<rparr> 10 =
   Cohort_simulate example_library
     \<lparr>coh_id = 0, popSize = 2, coh_params = example_params,
      cohortOutcomes = CohortOutcomes_init\<rparr> 10"
proof -
  let ?c = "\<lparr>coh_id = 0, popSize = 2, coh_params = example_params,
             cohortOutcomes = CohortOutcomes_init\<rparr> :: real list Cohort"
  let ?rs = "\<lambda>seed. if seed < 2 then RandomState example_library seed else None"
  have init: "Cohort_init 0 2 example_params = Inr ?c" by (simp add: Cohort_init_def)
  have other: "?rs 5 \<noteq> RandomState example_library 5"
    by (simp add: example_library_def scripted_library_def)
  have seeds: "\<forall>k. 0 \<le> k \<and> k < 2 \<longrightarrow> ?rs (0 * 2 + k) = RandomState example_library (0 * 2 + k)"
    by simp
  note det = Cohort_simulate_deterministic[OF init init, of example_library 10 0 ?rs]
  from example_cohort_run obtain c' where
    run: "Cohort_simulate example_library ?c 10 = Some (Inr c')"
    and out: "survivalTimes (cohortOutcomes c') = [2, 1]"
      "timesToAIDS (cohortOutcomes c') = [1]"
      "costs (cohortOutcomes c') = [16319, 5034]"
      "utilities (cohortOutcomes c') = [165 / 100, 9 / 10]"
    by simp
  from det run obtain ps where
    len: "length ps = nat 2"
    and pats: "\<forall>k < nat 2.
        Patient_simulate example_library (Patient_init (0 * 2 + int k) example_params) 10
          = Some (Inr (ps ! k)) \<and>
        pat_id (ps ! k) = 0 * 2 + int k"
    and fold: "survivalTimes (cohortOutcomes c') =
        survivalTimes (fold (\<lambda>q out. extract_outcome out q) ps (cohortOutcomes ?c))"
    by blast
  from pats have p0:
      "Patient_simulate example_library (Patient_init 0 example_params) 10 = Some (Inr (ps ! 0))"
      "pat_id (ps ! 0) = 0"
    by (auto dest: spec[of _ 0])
  from pats have p1:
      "Patient_simulate example_library (Patient_init 1 example_params) 10 = Some (Inr (ps ! 1))"
      "pat_id (ps ! 1) = 1"
    by (auto dest: spec[of _ 1])
  from p0(1) have "stateMonitor (ps ! 0) =
      \<lparr>currentState = HIV_DEATH, survivalTime = Some 2, timeToAIDS = Some 1,
       costUtilityMonitor =
         \<lparr>tLastRecorded = 2, cu_params = example_params,
          totalDiscountedCost = 16319, totalDiscountedUtility = 165 / 100\<rparr>\<rparr>"
    unfolding example_patient_0 by (metis Patient.select_convs(3) option.inject sum.inject(2))
  then have s0: "survivalTime (stateMonitor (ps ! 0)) = Some 2" by simp
  from p1(1) have "stateMonitor (ps ! 1) =
      \<lparr>currentState = HIV_DEATH, survivalTime = Some 1, timeToAIDS = None,
       costUtilityMonitor =
         \<lparr>tLastRecorded = 1, cu_params = example_params,
          totalDiscountedCost = 5034, totalDiscountedUtility = 9 / 10\<rparr>\<rparr>"
    unfolding example_patient_1 by (metis Patient.select_convs(3) option.inject sum.inject(2))
  then have s1: "survivalTime (stateMonitor (ps ! 1)) = Some 1" by simp
  from len have len2: "length ps = 2" by simp
  from fold have fold': "survivalTimes (cohortOutcomes c') =
        survivalTimes (fold (\<lambda>q out. extract_outcome out q) ps
          (CohortOutcomes_init :: real list CohortOutcomes))"
    by simp
  from det seeds
  have same: "Cohort_simulate (example_library\<lparr>RandomState := ?rs\<rparr>) ?c 10 =
        Cohort_simulate example_library ?c 10"
    by blast
  from run len2 p0 p1 s0 s1 fold' out
  have "\<exists>c' ps.
      Cohort_simulate example_library ?c 10 = Some (Inr c') \<and>
      length ps = 2 \<and>
      Patient_simulate example_library (Patient_init 0 example_params) 10
        = Some (Inr (ps ! 0)) \<and>
      Patient_simulate example_library (Patient_init 1 example_params) 10
        = Some (Inr (ps ! 1)) \<and>
      pat_id (ps ! 0) = 0 \<and> pat_id (ps ! 1) = 1 \<and>
      survivalTime (stateMonitor (ps ! 0)) = Some 2 \<and>
      survivalTime (stateMonitor (ps ! 1)) = Some 1 \<and>
      survivalTimes (cohortOutcomes c') =
        survivalTimes (fold (\<lambda>q out. extract_outcome out q) ps
          (CohortOutcomes_init :: real list CohortOutcomes)) \<and>
      survivalTimes (cohortOutcomes c') = [2, 1] \<and>
      timesToAIDS (cohortOutcomes c') = [1] \<and>
      costs (cohortOutcomes c') = [16319, 5034] \<and>
      utilities (cohortOutcomes c') = [165 / 100, 9 / 10]"
    by blast
  with init other same show ?thesis by blast
qed

subsection \<open>The survival curve\<close>

lemma zip_replicate_map: "zip ts (replicate (length ts) d) = map (\<lambda>t. (t, d)) ts"
  by (induction ts) simp_all

lemma insort_key_fst_map:
  "insort_key fst (t, d) (map (\<lambda>t. (t, d)) ts) = map (\<lambda>t. (t, d)) (insort t ts)"
  by (induction ts) simp_all

lemma sort_key_fst_map: "sort_key fst (map (\<lambda>t. (t, d)) ts) = map (\<lambda>t. (t, d)) (sort ts)"
  by (induction ts) (simp_all add: insort_key_fst_map)

lemma record_increments_length: "length (record_increments n cs) = length cs"
  by (induction n cs rule: record_increments.induct) simp_all

lemma record_increments_nth:
  "k < length ts \<Longrightarrow>
     record_increments n (map (\<lambda>t. (t, - 1)) ts) ! k = (ts ! k, n - 1 - int k)"
proof (induction ts arbitrary: n k)
  case Nil
  then show ?case by simp
next
  case (Cons t ts)
  show ?case
  proof (cases k)
    case 0
    then show ?thesis by simp
  next
    case (Suc k')
    with Cons.prems have "k' < length ts" by simp
    from Cons.IH[OF this, of "n + - 1"] Suc show ?thesis by simp
  qed
qed

text \<open>The steps of the curve of a population of \<open>n\<close> with the times of death \<open>ts\<close>.\<close>

lemma PrevalencePathBatchUpdate_deaths:
  fixes ts :: "real list" and n :: int
  defines "path \<equiv> PrevalencePathBatchUpdate n ts (replicate (length ts) (- 1))"
  shows "length path = Suc (length ts)"
    and "path ! 0 = (0, n)"
    and "k < length ts \<Longrightarrow> path ! Suc k = (sort ts ! k, n - 1 - int k)"
    and "k \<le> length ts \<Longrightarrow> snd (path ! k) = n - int k"
proof -
  have path: "path = (0, n) # record_increments n (map (\<lambda>t. (t, - 1)) (sort ts))"
    by (simp add: path_def PrevalencePathBatchUpdate_def zip_replicate_map sort_key_fst_map)
  show "length path = Suc (length ts)" by (simp add: path record_increments_length)
  show "path ! 0 = (0, n)" by (simp add: path)
  show step: "path ! Suc k = (sort ts ! k, n - 1 - int k)" if "k < length ts" for k
    using that by (simp add: path record_increments_nth)
  show "snd (path ! k) = n - int k" if "k \<le> length ts"
  proof (cases k)
    case 0
    then show ?thesis by (simp add: path)
  next
    case (Suc k')
    with that step[of k'] show ?thesis by simp
  qed
qed

lemma simulate_patients_lengths:
  "simulate_patients lib c L ks out = Some (Inr out') \<Longrightarrow>
     length (survivalTimes out') \<le> length (survivalTimes out) + length ks \<and>
     length (costs out') = length (costs out) + length ks"
proof (induction ks arbitrary: out)
  case Nil
  then show ?case by simp
next
  case (Cons k ks)
  from Cons.prems obtain patient where
    rest: "simulate_patients lib c L ks (extract_outcome out patient) = Some (Inr out')"
    by (auto split: option.splits sum.splits)
  have "length (survivalTimes (extract_outcome out patient)) \<le> Suc (length (survivalTimes out))"
    "length (costs (extract_outcome out patient)) = Suc (length (costs out))"
    by (simp_all add: extract_outcome_fields split: option.splits)
  with Cons.IH[OF rest] show ?case by simp
qed

text \<open>
  The patients that the loop of \<^verbatim>\<open>Cohort.simulate\<close> simulated, in the order of their
  indices: each one with a survival time adds one entry to the survival times.
\<close>

lemma simulate_patients_survivors:
  "simulate_patients lib c L ks out = Some (Inr out') \<Longrightarrow>
     \<exists>ps. length ps = length ks \<and>
       (\<forall>k < length ks.
          Patient_simulate lib
            (Patient_init (coh_id c * popSize c + int (ks ! k)) (coh_params c)) L
          = Some (Inr (ps ! k))) \<and>
       length (survivalTimes out') =
         length (survivalTimes out) +
         length (filter (\<lambda>q. survivalTime (stateMonitor q) \<noteq> None) ps)"
proof (induction ks arbitrary: out)
  case Nil
  then show ?case by simp
next
  case (Cons i ks)
  from Cons.prems obtain q where
    q: "Patient_simulate lib (Patient_init (coh_id c * popSize c + int i) (coh_params c)) L
          = Some (Inr q)"
    and rest: "simulate_patients lib c L ks (extract_outcome out q) = Some (Inr out')"
    by (auto split: option.splits sum.splits)
  from Cons.IH[OF rest] obtain ps where
    ps: "length ps = length ks"
      "\<forall>k < length ks.
          Patient_simulate lib
            (Patient_init (coh_id c * popSize c + int (ks ! k)) (coh_params c)) L
          = Some (Inr (ps ! k))"
      "length (survivalTimes out') =
         length (survivalTimes (extract_outcome out q)) +
         length (filter (\<lambda>q. survivalTime (stateMonitor q) \<noteq> None) ps)"
    by blast
  have "length (survivalTimes (extract_outcome out q)) =
      length (survivalTimes out) + (if survivalTime (stateMonitor q) \<noteq> None then 1 else 0)"
    by (simp add: extract_outcome_fields split: option.splits)
  with ps(3) have len: "length (survivalTimes out') =
         length (survivalTimes out) +
         length (filter (\<lambda>q. survivalTime (stateMonitor q) \<noteq> None) (q # ps))"
    by simp
  have "\<forall>k < length (i # ks).
          Patient_simulate lib
            (Patient_init (coh_id c * popSize c + int ((i # ks) ! k)) (coh_params c)) L
          = Some (Inr ((q # ps) ! k))"
  proof (intro allI impI)
    fix k assume "k < length (i # ks)"
    with q ps(2) show "Patient_simulate lib
            (Patient_init (coh_id c * popSize c + int ((i # ks) ! k)) (coh_params c)) L
          = Some (Inr ((q # ps) ! k))"
      by (cases k) simp_all
  qed
  with ps(1) len show ?case
    by (intro exI[of _ "q # ps"]) simp
qed

lemma calculate_cohort_outcomes_Inr:
  assumes "calculate_cohort_outcomes lib out n = Inr out'"
  shows "survivalTimes out' = survivalTimes out" "costs out' = costs out"
    "nLivingPatients out' =
       Some (PrevalencePathBatchUpdate n (survivalTimes out)
               (replicate (length (survivalTimes out)) (- 1)))"
  using assms
  by (auto simp: calculate_cohort_outcomes_def split: option.splits)

text \<open>
  C6. After \<^verbatim>\<open>Cohort.simulate\<close> of a new cohort of population size \<open>n \<ge> 0\<close>, the series of
  living patients has one step more than there are recorded survival times. Its first
  step is the population size \<open>n\<close> (at time 0); the step number \<open>k + 1\<close> is at the
  \<open>k\<close>-th survival time in ascending order and is one below the step before it; no
  step is negative; and from the first step to the last the count falls by the number
  of recorded survival times, which is the number of the \<open>n\<close> simulated patients (of ids
  \<open>id * n + k\<close>) whose survival time is set at the end of their simulation.
\<close>

theorem living_population_path:
  "Cohort_init cid n p = Inr c \<Longrightarrow> 0 \<le> n \<Longrightarrow>
   Cohort_simulate lib c sim_length = Some (Inr c') \<Longrightarrow>
   (\<exists>path. nLivingPatients (cohortOutcomes c') = Some path \<and>
      path ! 0 = (0, n) \<and>
      length path = Suc (length (survivalTimes (cohortOutcomes c'))) \<and>
      (\<forall>k < length (survivalTimes (cohortOutcomes c')).
         path ! Suc k = (sort (survivalTimes (cohortOutcomes c')) ! k, snd (path ! k) - 1)) \<and>
      (\<forall>x \<in> set path. 0 \<le> snd x) \<and>
      n - snd (last path) = int (length (survivalTimes (cohortOutcomes c'))) \<and>
      length (survivalTimes (cohortOutcomes c')) \<le> nat n \<and>
      length (costs (cohortOutcomes c')) = nat n \<and>
      (\<exists>ps. length ps = nat n \<and>
         (\<forall>k < nat n.
            Patient_simulate lib (Patient_init (cid * n + int k) p) sim_length
            = Some (Inr (ps ! k))) \<and>
         n - snd (last path) =
           int (length (filter (\<lambda>q. survivalTime (stateMonitor q) \<noteq> None) ps))))"
proof -
  assume init: "Cohort_init cid n p = Inr c" and n: "0 \<le> n"
    and run: "Cohort_simulate lib c sim_length = Some (Inr c')"
  from init have c: "popSize c = n" "cohortOutcomes c = CohortOutcomes_init"
    and c2: "coh_id c = cid" "coh_params c = p"
    by (auto simp: Cohort_init_def)
  from run c obtain out out' where
    pats: "simulate_patients lib c sim_length [0..<nat n] CohortOutcomes_init = Some (Inr out)"
    and calc: "calculate_cohort_outcomes lib out n = Inr out'"
    and c': "cohortOutcomes c' = out'"
    by (auto simp: Cohort_simulate_def split: option.splits sum.splits)
  let ?ts = "survivalTimes out'"
  let ?path = "PrevalencePathBatchUpdate n ?ts (replicate (length ?ts) (- 1))"
  note calc' = calculate_cohort_outcomes_Inr[OF calc]
  from simulate_patients_lengths[OF pats] calc'
  have len: "length ?ts \<le> nat n" "length (costs out') = nat n"
    by (simp_all add: CohortOutcomes_init_def)
  note path = PrevalencePathBatchUpdate_deaths[where n = n and ts = ?ts]
  have steps: "\<forall>k < length ?ts. ?path ! Suc k = (sort ?ts ! k, snd (?path ! k) - 1)"
    using path(3) path(4) by simp
  have nonneg: "\<forall>x \<in> set ?path. 0 \<le> snd x"
  proof
    fix x assume "x \<in> set ?path"
    then obtain k where k: "k < length ?path" "x = ?path ! k"
      by (auto simp: in_set_conv_nth)
    with path(1) have "k \<le> length ?ts" by simp
    with path(4)[of k] k len n show "0 \<le> snd x" by simp
  qed
  have "?path \<noteq> []" using path(1) by auto
  then have "last ?path = ?path ! length ?ts"
    using path(1) by (simp add: last_conv_nth)
  with path(4)[of "length ?ts"] have fall: "n - snd (last ?path) = int (length ?ts)"
    by simp
  from simulate_patients_survivors[OF pats] c c2 calc' obtain ps where
    ps: "length ps = nat n"
      "\<forall>k < nat n. Patient_simulate lib (Patient_init (cid * n + int k) p) sim_length
         = Some (Inr (ps ! k))"
      "length ?ts = length (filter (\<lambda>q. survivalTime (stateMonitor q) \<noteq> None) ps)"
    by (auto simp: CohortOutcomes_init_def)
  from ps fall have "\<exists>ps. length ps = nat n \<and>
         (\<forall>k < nat n.
            Patient_simulate lib (Patient_init (cid * n + int k) p) sim_length
            = Some (Inr (ps ! k))) \<and>
         n - snd (last ?path) =
           int (length (filter (\<lambda>q. survivalTime (stateMonitor q) \<noteq> None) ps))"
    by auto
  with calc' c' path(1,2) steps nonneg fall len show ?thesis by simp
qed

theorem living_population_path_witness:
  "(Cohort_init 0 2 example_params :: error + real list Cohort) =
     Inr \<lparr>coh_id = 0, popSize = 2, coh_params = example_params,
          cohortOutcomes = CohortOutcomes_init\<rparr> \<and>
   (0 :: int) \<le> 2 \<and>
   (\<exists>c'. Cohort_simulate example_library
            \<lparr>coh_id = 0, popSize = 2, coh_params = example_params,
             cohortOutcomes = CohortOutcomes_init\<rparr> 10 = Some (Inr c') \<and>
         survivalTimes (cohortOutcomes c') = [2, 1] \<and>
         nLivingPatients (cohortOutcomes c') = Some [(0, 2), (1, 1), (2, 0)] \<and>
         (\<exists>path. nLivingPatients (cohortOutcomes c') = Some path \<and> path ! 0 = (0, 2) \<and>
            length path = 3 \<and> 2 - snd (last path) = 2))"
proof -
  let ?c = "\<lparr>coh_id = 0, popSize = 2, coh_params = example_params,
             cohortOutcomes = CohortOutcomes_init\<rparr> :: real list Cohort"
  have init: "Cohort_init 0 2 example_params = Inr ?c" by (simp add: Cohort_init_def)
  from example_cohort_run obtain c' where
    run: "Cohort_simulate example_library ?c 10 = Some (Inr c')"
    and ts: "survivalTimes (cohortOutcomes c') = [2, 1]"
    and path: "nLivingPatients (cohortOutcomes c') = Some [(0, 2), (1, 1), (2, 0)]"
    by simp
  from living_population_path[OF init _ run] ts
  have "\<exists>path. nLivingPatients (cohortOutcomes c') = Some path \<and> path ! 0 = (0, 2) \<and>
            length path = 3 \<and> 2 - snd (last path) = 2"
    by auto
  moreover have "(0 :: int) \<le> 2" by simp
  ultimately show ?thesis using init run ts path by blast
qed

subsection \<open>Configuration errors\<close>

text \<open>
  C9 as stated does not hold. A cohort with the population size -1 is constructed;
  and a cohort of one patient is constructed and then simulated with the horizon 0:
  the patient is simulated and its outcomes are recorded.
\<close>

theorem Cohort_accepts_bad_configuration_counterexample:
  "(Cohort_init 0 (- 1) example_params :: error + real list Cohort) =
     Inr \<lparr>coh_id = 0, popSize = - 1, coh_params = example_params,
          cohortOutcomes = CohortOutcomes_init\<rparr> \<and>
   (Cohort_init 0 1 example_params :: error + real list Cohort) =
     Inr \<lparr>coh_id = 0, popSize = 1, coh_params = example_params,
          cohortOutcomes = CohortOutcomes_init\<rparr> \<and>
   Cohort_simulate example_library
     \<lparr>coh_id = 0, popSize = 1, coh_params = example_params,
      cohortOutcomes = CohortOutcomes_init\<rparr> 0 =
   Some (Inr \<lparr>coh_id = 0, popSize = 1, coh_params = example_params,
              cohortOutcomes =
                \<lparr>survivalTimes = [], timesToAIDS = [], costs = [0], utilities = [0],
                 nLivingPatients = Some [(0, 1)],
                 statSurvivalTime = Some [], statTimeToAIDS = Some [],
                 statCost = Some [0], statUtility = Some [0]\<rparr>\<rparr>)"
proof -
  have patient: "Patient_simulate example_library (Patient_init 0 example_params) 0 =
     Some (Inr \<lparr>pat_id = 0, pat_params = example_params,
                stateMonitor =
                  \<lparr>currentState = CD4_200to500, survivalTime = None, timeToAIDS = None,
                   costUtilityMonitor =
                     \<lparr>tLastRecorded = 0, cu_params = example_params,
                      totalDiscountedCost = 0, totalDiscountedUtility = 0\<rparr>\<rparr>\<rparr>)"
    by (simp add: Patient_simulate_def Patient_init_def simulate_loop.simps
        example_defs model_defs)
  have range: "[0..<1 :: nat] = [0]" by simp
  have stat: "SummaryStat example_library name data = Some data" for name data
    by (simp add: example_library_def scripted_library_def)
  have "Cohort_simulate example_library
     \<lparr>coh_id = 0, popSize = 1, coh_params = example_params,
      cohortOutcomes = CohortOutcomes_init\<rparr> 0 =
   Some (Inr \<lparr>coh_id = 0, popSize = 1, coh_params = example_params,
              cohortOutcomes =
                \<lparr>survivalTimes = [], timesToAIDS = [], costs = [0], utilities = [0],
                 nLivingPatients = Some [(0, 1)],
                 statSurvivalTime = Some [], statTimeToAIDS = Some [],
                 statCost = Some [0], statUtility = Some [0]\<rparr>\<rparr>)"
    by (simp add: Cohort_simulate_def range patient extract_outcome_def
        CohortOutcomes_init_def calculate_cohort_outcomes_def stat PrevalencePathBatchUpdate_def)
  then show ?thesis by (simp add: Cohort_init_def)
qed

text \<open>
  C9, as amended. \<^verbatim>\<open>Cohort.__init__\<close> checks nothing: for every id, population size and
  parameter object it returns a cohort that holds them, with empty outcome
  collections. With a population size \<open>popSize c \<le> 0\<close> the loop of \<^verbatim>\<open>Cohort.simulate\<close> simulates
  no patient. The rate matrix is first used when \<^verbatim>\<open>Patient.simulate\<close> builds the sampler:
  with a matrix that the library rejects, \<^verbatim>\<open>Cohort.simulate\<close> of a cohort of at least one
  patient raises while it simulates the first patient. The horizon is an argument of
  \<^verbatim>\<open>Cohort.simulate\<close> and a horizon \<open>sim_length \<le> 0\<close> is not rejected: with waiting times of
  at least \<open>eps > 0\<close> the loop of a patient makes one pass, which ends on the sentinel
  or updates the monitor once, at time \<open>sim_length\<close> and with the state unchanged.
\<close>

theorem Cohort_no_validation:
  "(Cohort_init cid n p :: error + 's Cohort) =
     Inr \<lparr>coh_id = cid, popSize = n, coh_params = p, cohortOutcomes = CohortOutcomes_init\<rparr> \<and>
   (popSize c \<le> 0 \<longrightarrow>
      simulate_patients (lib :: ('r, 'g, 's) library) c sim_length [0..<nat (popSize c)] out = Some (Inr out)) \<and>
   (0 < popSize c \<and> Gillespie lib (transRateMatrix (coh_params c)) = None \<longrightarrow>
      Cohort_simulate lib c sim_length = Some (Inl LibraryError)) \<and>
   (sim_length \<le> 0 \<and> 0 < eps \<and> waiting_times_from eps lib g \<longrightarrow>
      simulate_loop lib g sim_length 0 m rng =
        (case get_next_state lib g (HealthStates_value (currentState m)) rng of
           None \<Rightarrow> Some (Inl LibraryError)
         | Some ((None, j), rng') \<Rightarrow> Some (Inr m)
         | Some ((Some dt, j), rng') \<Rightarrow>
             Some (PatientStateMonitor_update lib m sim_length (currentState m))))"
proof (intro conjI impI)
  show "(Cohort_init cid n p :: error + 's Cohort) =
     Inr \<lparr>coh_id = cid, popSize = n, coh_params = p, cohortOutcomes = CohortOutcomes_init\<rparr>"
    by (simp add: Cohort_init_def)
next
  assume "popSize c \<le> 0"
  then have "nat (popSize c) = 0" by simp
  then show "simulate_patients lib c sim_length [0..<nat (popSize c)] out = Some (Inr out)"
    by simp
next
  assume h: "0 < popSize c \<and> Gillespie lib (transRateMatrix (coh_params c)) = None"
  then have "[0..<nat (popSize c)] = 0 # [1..<nat (popSize c)]" by (simp add: upt_conv_Cons)
  moreover from h have "Patient_simulate lib (Patient_init i (coh_params c)) sim_length
      = Some (Inl LibraryError)" for i
    by (simp add: Patient_simulate_def Patient_init_def split: option.splits)
  ultimately show "Cohort_simulate lib c sim_length = Some (Inl LibraryError)"
    by (simp add: Cohort_simulate_def)
next
  assume h: "sim_length \<le> 0 \<and> 0 < eps \<and> waiting_times_from eps lib g"
  show "simulate_loop lib g sim_length 0 m rng =
        (case get_next_state lib g (HealthStates_value (currentState m)) rng of
           None \<Rightarrow> Some (Inl LibraryError)
         | Some ((None, j), rng') \<Rightarrow> Some (Inr m)
         | Some ((Some dt, j), rng') \<Rightarrow>
             Some (PatientStateMonitor_update lib m sim_length (currentState m)))"
  proof (cases "get_next_state lib g (HealthStates_value (currentState m)) rng")
    case None
    then show ?thesis by (subst simulate_loop.simps) (simp add: simulate_step_def)
  next
    case (Some r)
    obtain dto j rng' where r: "r = ((dto, j), rng')" by (metis surj_pair)
    show ?thesis
    proof (cases dto)
      case None
      with Some r show ?thesis by (subst simulate_loop.simps) (simp add: simulate_step_def)
    next
      case dt: (Some dt)
      with Some r h have "eps \<le> dt" unfolding waiting_times_from_def by blast
      with h have "dt + 0 > sim_length" by simp
      with Some r dt show ?thesis
        by (subst simulate_loop.simps)
           (simp add: simulate_step_def HealthStates_of_value split: sum.splits)
    qed
  qed
qed

theorem Cohort_no_validation_witness:
  "(Cohort_init 0 (- 1) example_params :: error + real list Cohort) =
     Inr \<lparr>coh_id = 0, popSize = - 1, coh_params = example_params,
          cohortOutcomes = CohortOutcomes_init\<rparr> \<and>
   simulate_patients example_library
     \<lparr>coh_id = 0, popSize = - 1, coh_params = example_params,
      cohortOutcomes = CohortOutcomes_init\<rparr> 10 [0..<nat (- 1)] CohortOutcomes_init =
     Some (Inr CohortOutcomes_init) \<and>
   Gillespie (example_library\<lparr>Gillespie := \<lambda>matrix. None\<rparr>) (transRateMatrix example_params)
     = None \<and>
   Cohort_simulate (example_library\<lparr>Gillespie := \<lambda>matrix. None\<rparr>)
     \<lparr>coh_id = 0, popSize = 2, coh_params = example_params,
      cohortOutcomes = CohortOutcomes_init\<rparr> 10 = Some (Inl LibraryError) \<and>
   waiting_times_from 1 example_library example_matrix \<and>
   simulate_loop example_library example_matrix (- 1) 0 example_monitor 0 =
     Some (PatientStateMonitor_update example_library example_monitor (- 1) CD4_200to500)"
proof -
  let ?c = "\<lambda>n. \<lparr>coh_id = 0, popSize = n, coh_params = example_params,
             cohortOutcomes = CohortOutcomes_init\<rparr> :: real list Cohort"
  let ?lib = "example_library\<lparr>Gillespie := \<lambda>matrix. None\<rparr>"
  have init: "Cohort_init 0 n example_params = Inr (?c n)" for n
    by (simp add: Cohort_init_def)
  have g: "Gillespie ?lib (transRateMatrix example_params) = None" by simp
  have s: "get_next_state example_library example_matrix
     (HealthStates_value (currentState example_monitor)) 0 = Some ((Some 1, 2), 1)"
    by (simp add: example_defs)
  have st: "currentState example_monitor = CD4_200to500"
    by (simp add: example_monitor_def PatientStateMonitor_init_def example_params_def)
  from Cohort_no_validation[where cid = 0 and n = 0 and p = example_params and c = "?c (- 1)" and lib = example_library and sim_length = 10
      and out = CohortOutcomes_init, THEN conjunct2]
  have a: "simulate_patients example_library (?c (- 1)) 10 [0..<nat (- 1)] CohortOutcomes_init =
     Some (Inr CohortOutcomes_init)"
    by simp
  from Cohort_no_validation[where cid = 0 and n = 0 and p = example_params and c = "?c 2" and lib = ?lib and sim_length = 10,
      THEN conjunct2] g
  have b: "Cohort_simulate ?lib (?c 2) 10 = Some (Inl LibraryError)"
    by simp
  from Cohort_no_validation[where cid = 0 and n = 0 and p = example_params
      and lib = example_library and sim_length = "- 1" and eps = 1
      and g = example_matrix and m = example_monitor and rng = 0, THEN conjunct2]
    example_library_waiting_times s st
  have c: "simulate_loop example_library example_matrix (- 1) 0 example_monitor 0 =
     Some (PatientStateMonitor_update example_library example_monitor (- 1) CD4_200to500)"
    by simp
  from init[of "- 1"] a g b example_library_waiting_times c show ?thesis by blast
qed

end
